theory Spec2Isabelle
  imports Main
begin

section \<open>JavaScript values used by the dispatcher\<close>

text \<open>
  The AJAX helper exists in three versions: version 1.0 (\<^verbatim>\<open>src/ajax.js\<close>, and the same
  text with \<^verbatim>\<open>function\<close> callbacks in \<^verbatim>\<open>src/unnamed/part_001\<close>) and version 1.1 with
  Comet support (\<^verbatim>\<open>src/unnamed/part_000\<close>). Line numbers below refer to version 1.1
  unless stated otherwise.

  A JavaScript string is a sequence of UTF-16 code units; a \<^typ>\<open>char\<close> stands for one
  code unit in the range 0..255, so \<^const>\<open>length\<close> is JavaScript's \<^verbatim>\<open>.length\<close> on such
  strings. Numbers are restricted to the integers whose decimal form is their
  \<^verbatim>\<open>String(n)\<close>. An object is the list of its own enumerable string-keyed properties in
  enumeration order; an array is the list of its elements. A \<^verbatim>\<open>FormData\<close> value carries
  its form entries, which are not properties of the object.
\<close>

datatype jsval =
    JUndefined
  | JNull
  | JBool bool
  | JNum int
  | JStr string
  | JArr "jsval list"
  | JObj "(string \<times> jsval) list"
  | JFormData "(string \<times> string) list"

text \<open>ToBoolean, the test behind \<^verbatim>\<open>if (v)\<close>, \<^verbatim>\<open>a || b\<close> and \<^verbatim>\<open>a && b\<close>.\<close>

fun truthy :: "jsval \<Rightarrow> bool" where
  "truthy JUndefined = False"
| "truthy JNull = False"
| "truthy (JBool b) = b"
| "truthy (JNum n) = (n \<noteq> 0)"
| "truthy (JStr s) = (s \<noteq> [])"
| "truthy (JArr xs) = True"
| "truthy (JObj kvs) = True"
| "truthy (JFormData fd) = True"

definition js_or :: "jsval \<Rightarrow> jsval \<Rightarrow> jsval" where
  "js_or a b = (if truthy a then a else b)"

text \<open>\<^verbatim>\<open>typeof v == 'object'\<close>: true of \<^verbatim>\<open>null\<close>, objects, arrays and FormData.\<close>

fun typeof_object :: "jsval \<Rightarrow> bool" where
  "typeof_object JNull = True"
| "typeof_object (JArr xs) = True"
| "typeof_object (JObj kvs) = True"
| "typeof_object (JFormData fd) = True"
| "typeof_object v = False"

fun instanceof_FormData :: "jsval \<Rightarrow> bool" where
  "instanceof_FormData (JFormData fd) = True"
| "instanceof_FormData v = False"

subsection \<open>String helpers of the platform\<close>

fun join_with :: "string \<Rightarrow> string list \<Rightarrow> string" where
  "join_with sep [] = []"
| "join_with sep [x] = x"
| "join_with sep (x # y # ys) = x @ sep @ join_with sep (y # ys)"

function digits :: "nat \<Rightarrow> string" where
  "digits n =
     (if n < 10 then [''0123456789'' ! n]
      else digits (n div 10) @ [''0123456789'' ! (n mod 10)])"
  by pat_completeness auto
termination
  by (relation "measure id") auto

declare digits.simps [simp del]

definition Number_toString :: "int \<Rightarrow> string" where
  "Number_toString n = (if n < 0 then ''-'' @ digits (nat (- n)) else digits (nat n))"

text \<open>
  ToString, as applied by \<^verbatim>\<open>encodeURIComponent(value)\<close> and by template literals. An
  array joins its elements with a comma, \<^verbatim>\<open>null\<close> and \<^verbatim>\<open>undefined\<close> elements giving
  the empty string.
\<close>

fun ToString :: "jsval \<Rightarrow> string" where
  "ToString JUndefined = ''undefined''"
| "ToString JNull = ''null''"
| "ToString (JBool b) = (if b then ''true'' else ''false'')"
| "ToString (JNum n) = Number_toString n"
| "ToString (JStr s) = s"
| "ToString (JArr xs) =
     join_with '',''
       (map (\<lambda>x. case x of JUndefined \<Rightarrow> [] | JNull \<Rightarrow> [] | _ \<Rightarrow> ToString x) xs)"
| "ToString (JObj kvs) = ''[object Object]''"
| "ToString (JFormData fd) = ''[object FormData]''"

definition hex_upper :: "nat \<Rightarrow> char" where
  "hex_upper k = ''0123456789ABCDEF'' ! k"

definition hex_lower :: "nat \<Rightarrow> char" where
  "hex_lower k = ''0123456789abcdef'' ! k"

definition percent :: "nat \<Rightarrow> string" where
  "percent b = [CHR ''%'', hex_upper (b div 16), hex_upper (b mod 16)]"

definition uri_unreserved :: "char \<Rightarrow> bool" where
  "uri_unreserved c \<longleftrightarrow>
     c \<in> set ''ABCDEFGHIJKLMNOPQRSTUVWXYZabcdefghijklmnopqrstuvwxyz0123456789-_.!~*()''
     \<or> c = CHR 0x27"

text \<open>
  \<^verbatim>\<open>encodeURIComponent\<close>: the unreserved characters stand for themselves, every other
  code unit is written as the percent-escaped bytes of its UTF-8 encoding (one byte
  below 128, two bytes from 128 to 255).
\<close>

definition encode_unit :: "char \<Rightarrow> string" where
  "encode_unit c =
     (let k = (of_char c :: nat) in
      if uri_unreserved c then [c]
      else if k < 128 then percent k
      else percent (192 + k div 64) @ percent (128 + k mod 64))"

definition encodeURIComponent :: "string \<Rightarrow> string" where
  "encodeURIComponent s = concat (map encode_unit s)"

text \<open>\<^verbatim>\<open>JSON.stringify\<close>: QuoteJSONString first.\<close>

definition quote_unit :: "char \<Rightarrow> string" where
  "quote_unit c =
     (let k = (of_char c :: nat) in
      if c = CHR 0x22 then [CHR 0x5C, CHR 0x22]
      else if c = CHR 0x5C then [CHR 0x5C, CHR 0x5C]
      else if k = 8 then [CHR 0x5C, CHR ''b'']
      else if k = 9 then [CHR 0x5C, CHR ''t'']
      else if k = 10 then [CHR 0x5C, CHR ''n'']
      else if k = 12 then [CHR 0x5C, CHR ''f'']
      else if k = 13 then [CHR 0x5C, CHR ''r'']
      else if k < 32 then [CHR 0x5C, CHR ''u'', CHR ''0'', CHR ''0'', hex_lower (k div 16), hex_lower (k mod 16)]
      else [c])"

definition quote_json :: "string \<Rightarrow> string" where
  "quote_json s = [CHR 0x22] @ concat (map quote_unit s) @ [CHR 0x22]"

text \<open>
  \<^verbatim>\<open>JSON.stringify(v)\<close> returns \<^verbatim>\<open>undefined\<close> (here \<^const>\<open>None\<close>) for \<^verbatim>\<open>undefined\<close>; a
  property whose value has no JSON form is left out of an object and written \<^verbatim>\<open>null\<close>
  in an array; a FormData object has no enumerable property of its own.
\<close>

fun JSON_stringify :: "jsval \<Rightarrow> string option" where
  "JSON_stringify JUndefined = None"
| "JSON_stringify JNull = Some ''null''"
| "JSON_stringify (JBool b) = Some (if b then ''true'' else ''false'')"
| "JSON_stringify (JNum n) = Some (Number_toString n)"
| "JSON_stringify (JStr s) = Some (quote_json s)"
| "JSON_stringify (JArr xs) =
     Some (''['' @ join_with '',''
             (map (\<lambda>x. case JSON_stringify x of None \<Rightarrow> ''null'' | Some s \<Rightarrow> s) xs) @ '']'')"
| "JSON_stringify (JObj kvs) =
     Some (''{'' @ join_with '',''
             (concat (map (\<lambda>(k, v). case JSON_stringify v of
                                      None \<Rightarrow> []
                                    | Some s \<Rightarrow> [quote_json k @ '':'' @ s]) kvs)) @ ''}'')"
| "JSON_stringify (JFormData fd) = Some ''{}''"

text \<open>
  \<^verbatim>\<open>Object.entries(v)\<close>: the own enumerable properties; the indices of an array in
  order; none for a FormData object; a TypeError for \<^verbatim>\<open>null\<close> and \<^verbatim>\<open>undefined\<close>
  (here \<^const>\<open>None\<close>). It is only called on values whose \<^verbatim>\<open>typeof\<close> is \<^verbatim>\<open>'object'\<close>.
\<close>

fun index_from :: "nat \<Rightarrow> jsval list \<Rightarrow> (string \<times> jsval) list" where
  "index_from i [] = []"
| "index_from i (x # xs) = (digits i, x) # index_from (Suc i) xs"

fun Object_entries :: "jsval \<Rightarrow> (string \<times> jsval) list option" where
  "Object_entries (JObj kvs) = Some kvs"
| "Object_entries (JArr xs) = Some (index_from 0 xs)"
| "Object_entries (JFormData fd) = Some []"
| "Object_entries v = None"

text \<open>
  \<^verbatim>\<open>s.split(/[\n\r]+/)\<close>: the pieces between maximal runs of line feeds and carriage
  returns. A text that starts (ends) with such a run has an empty first (last) piece,
  and the empty text splits into one empty piece.
\<close>

definition is_newline :: "char \<Rightarrow> bool" where
  "is_newline c \<longleftrightarrow> c = CHR 0x0A \<or> c = CHR 0x0D"

fun split_from :: "string \<Rightarrow> string \<Rightarrow> string list"
  and skip_run :: "string \<Rightarrow> string list" where
  "split_from cur [] = [cur]"
| "split_from cur (c # cs) =
     (if is_newline c then cur # skip_run cs else split_from (cur @ [c]) cs)"
| "skip_run [] = [[]]"
| "skip_run (c # cs) = (if is_newline c then skip_run cs else split_from [c] cs)"

definition split_newlines :: "string \<Rightarrow> string list" where
  "split_newlines s = split_from [] s"

text \<open>\<^verbatim>\<open>s.substr(n)\<close> for an offset \<open>n \<ge> 0\<close>: the rest of the string from \<open>n\<close>.\<close>

definition substr :: "string \<Rightarrow> nat \<Rightarrow> string" where
  "substr s n = drop n s"

text \<open>\<^verbatim>\<open>s.toUpperCase()\<close> on the ASCII letters (an HTTP method is an ASCII token).\<close>

definition upper_unit :: "char \<Rightarrow> char" where
  "upper_unit c =
     (let k = (of_char c :: nat) in if 97 \<le> k \<and> k \<le> 122 then char_of (k - 32) else c)"

definition toUpperCase :: "string \<Rightarrow> string" where
  "toUpperCase s = map upper_unit s"

section \<open>The request descriptor and the synchronous part of \<^verbatim>\<open>ajax\<close>\<close>

text \<open>
  The options object with the fields and types of the documentation comment. An
  optional string is \<^const>\<open>None\<close> when the property is absent; \<^verbatim>\<open>data\<close> and
  \<^verbatim>\<open>async\<close> are arbitrary values (\<^const>\<open>JUndefined\<close> when absent); \<^verbatim>\<open>headers\<close> is
  absent or a plain object with string values. The field \<^verbatim>\<open>method\<close> is written
  \<open>http_method\<close>. The \<^verbatim>\<open>comet\<close> property is falsy (\<open>NoComet\<close>), a value whose
  \<^verbatim>\<open>constructor\<close> is \<^verbatim>\<open>Function\<close> (\<open>CometFunction\<close>) or any other truthy value
  (\<open>CometOther\<close>).
\<close>

datatype comet_option = NoComet | CometFunction | CometOther

record options =
  http_method :: "string option"
  url :: "string option"
  data :: jsval
  headers :: "(string \<times> string) list option"
  contentType :: "string option"
  async :: jsval
  user :: "string option"
  password :: "string option"
  comet :: comet_option
  cometPollRate :: "nat option"

datatype descriptor = DString string | DObject options

datatype fault = TypeError | SyntaxError | CallbackFault

definition no_options :: options where
  "no_options =
     \<lparr>http_method = None, url = None, data = JUndefined, headers = None, contentType = None,
      async = JUndefined, user = None, password = None, comet = NoComet,
      cometPollRate = None\<rparr>"

text \<open>Line 35: \<^verbatim>\<open>if (typeof options === 'string') options = { url: options }\<close>.\<close>

definition normalize_options :: "descriptor \<Rightarrow> options" where
  "normalize_options d = (case d of DString s \<Rightarrow> no_options\<lparr>url := Some s\<rparr> | DObject opts \<Rightarrow> opts)"

text \<open>\<^verbatim>\<open>s || d\<close> and \<^verbatim>\<open>s || null\<close> on an optional string: absent and empty are falsy.\<close>

definition or_string :: "string option \<Rightarrow> string \<Rightarrow> string" where
  "or_string x d = (case x of None \<Rightarrow> d | Some s \<Rightarrow> if s = [] then d else s)"

definition or_null :: "string option \<Rightarrow> string option" where
  "or_null x = (case x of None \<Rightarrow> None | Some s \<Rightarrow> if s = [] then None else Some s)"

text \<open>Lines 64-70, the arguments of \<^verbatim>\<open>xhr.open\<close> (lines 44-50 of version 1.0).\<close>

record open_args =
  open_method :: string
  open_url :: "string option"
  open_async :: jsval
  open_user :: "string option"
  open_password :: "string option"

definition open_arguments :: "options \<Rightarrow> open_args" where
  "open_arguments opts =
     \<lparr>open_method = toUpperCase (or_string (http_method opts) ''GET''),
      open_url = url opts,
      open_async = js_or (async opts) (JBool True),
      open_user = or_null (user opts),
      open_password = or_null (password opts)\<rparr>"

text \<open>
  Property assignment \<^verbatim>\<open>obj[k] = v\<close> on a plain object: an existing property keeps its
  place in the enumeration order, a new one is added at the end.
\<close>

fun set_prop :: "string \<Rightarrow> 'v \<Rightarrow> (string \<times> 'v) list \<Rightarrow> (string \<times> 'v) list" where
  "set_prop k v [] = [(k, v)]"
| "set_prop k v ((k', v') # ps) = (if k' = k then (k, v) # ps else (k', v') # set_prop k v ps)"

definition headers_of :: "options \<Rightarrow> (string \<times> string) list" where
  "headers_of opts = (case headers opts of None \<Rightarrow> [] | Some hs \<Rightarrow> hs)"

text \<open>Lines 75-78 (55-58 of version 1.0): the headers object of the options is written.\<close>

definition assemble_headers :: "options \<Rightarrow> options" where
  "assemble_headers opts =
     (let o1 = (if headers opts = None then opts\<lparr>headers := Some []\<rparr> else opts)
      in case contentType o1 of
           None \<Rightarrow> o1
         | Some c \<Rightarrow>
             if c \<noteq> [] then o1\<lparr>headers := Some (set_prop ''Content-Type'' c (headers_of o1))\<rparr>
             else o1)"

text \<open>Lines 79-81: one \<^verbatim>\<open>setRequestHeader(key, options.headers[key])\<close> per key.\<close>

definition header_calls_of :: "options \<Rightarrow> (string \<times> string) list" where
  "header_calls_of opts =
     map (\<lambda>k. (k, case map_of (headers_of opts) k of None \<Rightarrow> ''undefined'' | Some v \<Rightarrow> v))
       (map fst (headers_of opts))"

definition active_content_type :: "options \<Rightarrow> string option" where
  "active_content_type opts = map_of (headers_of opts) ''Content-Type''"

definition urlencode :: "(string \<times> jsval) list \<Rightarrow> string" where
  "urlencode kvs =
     join_with ''&''
       (map (\<lambda>(k, v). encodeURIComponent k @ ''='' @ encodeURIComponent (ToString v)) kvs)"

text \<open>
  Lines 86-98 (66-78 of version 1.0): the data field of the options is replaced.
  \<^verbatim>\<open>Object.entries(null)\<close> raises a TypeError.
\<close>

definition serialize_data :: "options \<Rightarrow> fault + options" where
  "serialize_data opts =
     (if typeof_object (data opts) \<and> active_content_type opts = Some ''application/json'' then
        Inr (opts\<lparr>data := (case JSON_stringify (data opts) of
                              None \<Rightarrow> JUndefined
                            | Some s \<Rightarrow> JStr s)\<rparr>)
      else if typeof_object (data opts) \<and> \<not> instanceof_FormData (data opts) then
        (case Object_entries (data opts) of
           None \<Rightarrow> Inl TypeError
         | Some kvs \<Rightarrow> Inr (opts\<lparr>data := JStr (urlencode kvs)\<rparr>))
      else Inr opts)"

text \<open>
  Lines 103-113: the polling reader is started when \<^verbatim>\<open>options.comet\<close> is truthy and its
  constructor is \<^verbatim>\<open>Function\<close>; the delay is \<^verbatim>\<open>options.cometPollRate || 100\<close>.
\<close>

definition comet_interval :: "options \<Rightarrow> nat option" where
  "comet_interval opts =
     (if comet opts = CometFunction then
        Some (case cometPollRate opts of None \<Rightarrow> 100 | Some n \<Rightarrow> if n \<noteq> 0 then n else 100)
      else None)"

text \<open>
  What one call of the promise executor has done when it returns: the options object
  as it has left it, the calls made on the transaction, the delay of the interval
  timer when one was started, and the exception that ended it early, if any. The
  transaction primitive is taken to accept \<^verbatim>\<open>open\<close>, \<^verbatim>\<open>setRequestHeader\<close> and \<^verbatim>\<open>send\<close>.
\<close>

record request =
  options_after :: options
  open_call :: open_args
  header_calls :: "(string \<times> string) list"
  poll_interval :: "nat option"
  send_call :: "jsval option"
  thrown :: "fault option"

definition ajax_executor :: "options \<Rightarrow> request" where
  "ajax_executor opts =
     (let o1 = assemble_headers opts in
      case serialize_data o1 of
        Inl f \<Rightarrow>
          \<lparr>options_after = o1, open_call = open_arguments opts,
           header_calls = header_calls_of o1, poll_interval = None, send_call = None,
           thrown = Some f\<rparr>
      | Inr o2 \<Rightarrow>
          \<lparr>options_after = o2, open_call = open_arguments opts,
           header_calls = header_calls_of o1, poll_interval = comet_interval o2,
           send_call = Some (js_or (data o2) JNull), thrown = None\<rparr>)"

definition ajax :: "descriptor \<Rightarrow> request" where
  "ajax d = ajax_executor (normalize_options d)"

text \<open>Version 1.0 (\<^verbatim>\<open>src/ajax.js\<close>): the same executor without the polling reader.\<close>

definition ajax_v1_executor :: "options \<Rightarrow> request" where
  "ajax_v1_executor opts =
     (let o1 = assemble_headers opts in
      case serialize_data o1 of
        Inl f \<Rightarrow>
          \<lparr>options_after = o1, open_call = open_arguments opts,
           header_calls = header_calls_of o1, poll_interval = None, send_call = None,
           thrown = Some f\<rparr>
      | Inr o2 \<Rightarrow>
          \<lparr>options_after = o2, open_call = open_arguments opts,
           header_calls = header_calls_of o1, poll_interval = None,
           send_call = Some (js_or (data o2) JNull), thrown = None\<rparr>)"

definition ajax_v1 :: "descriptor \<Rightarrow> request" where
  "ajax_v1 d = ajax_v1_executor (normalize_options d)"

text \<open>
  The descriptor the caller holds after the call: a string is immutable, a structured
  descriptor is the very object the executor has written to.
\<close>

definition caller_descriptor :: "descriptor \<Rightarrow> request \<Rightarrow> descriptor" where
  "caller_descriptor d r = (case d of DString s \<Rightarrow> DString s | DObject opts \<Rightarrow> DObject (options_after r))"

section \<open>The asynchronous part: lifecycle events and polling ticks\<close>

text \<open>
  The fields of the transaction that the platform writes. \<^verbatim>\<open>responseType\<close> is never
  set, so \<^verbatim>\<open>this.response\<close> is the string \<^verbatim>\<open>this.responseText\<close>;
  \<open>contentTypeHeader\<close> is \<^verbatim>\<open>getResponseHeader('Content-Type')\<close>, \<^const>\<open>None\<close> for
  \<^verbatim>\<open>null\<close>.
\<close>

record transaction =
  readyState :: nat
  status :: int
  statusText :: string
  responseText :: string
  contentTypeHeader :: "string option"

text \<open>
  The request object: the platform's fields and the two properties the helper adds
  (\<^const>\<open>None\<close> while the property is absent). The type \<open>'j\<close> is that of parsed JSON
  values; \<^verbatim>\<open>JSON.parse\<close> is a parameter \<open>parse\<close> of the model, \<^const>\<open>None\<close> where it
  raises a SyntaxError.
\<close>

record 'j xhr =
  txn :: transaction
  responseJSON :: "'j option"
  responseComet :: "string option"

datatype reason = Error string | Thrown fault

datatype 'j promise = Pending | Resolved "'j xhr" | Rejected reason

text \<open>
  The state of one invocation: the request object, the promise, the closure variables
  \<^verbatim>\<open>cometTimer\<close> (\<^const>\<open>None\<close> for \<^verbatim>\<open>null\<close>, otherwise the timer that
  \<^verbatim>\<open>setInterval\<close> has returned, a truthy handle, named here by its delay),
  \<^verbatim>\<open>cometLength\<close> and \<^verbatim>\<open>lastLine\<close>, whether the interval timer is active, the
  arguments of the calls of \<^verbatim>\<open>options.comet\<close> so far, and the exceptions that have left
  an event handler uncaught.
\<close>

record 'j invocation =
  xhr :: "'j xhr"
  promise :: "'j promise"
  cometTimer :: "nat option"
  timer_running :: bool
  cometLength :: nat
  lastLine :: jsval
  comet_calls :: "jsval list"
  uncaught :: "fault list"

text \<open>
  \<^verbatim>\<open>resolve\<close> and \<^verbatim>\<open>reject\<close> of a promise act on a pending promise only. An
  exception raised by the executor rejects the promise with it.
\<close>

definition resolve :: "'j invocation \<Rightarrow> 'j invocation" where
  "resolve s = (case promise s of Pending \<Rightarrow> s\<lparr>promise := Resolved (xhr s)\<rparr> | _ \<Rightarrow> s)"

definition reject :: "reason \<Rightarrow> 'j invocation \<Rightarrow> 'j invocation" where
  "reject e s = (case promise s of Pending \<Rightarrow> s\<lparr>promise := Rejected e\<rparr> | _ \<Rightarrow> s)"

definition start :: "request \<Rightarrow> 'j invocation" where
  "start r =
     \<lparr>xhr = \<lparr>txn = \<lparr>readyState = 1, status = 0, statusText = [], responseText = [],
                    contentTypeHeader = None\<rparr>,
             responseJSON = None, responseComet = None\<rparr>,
      promise = (case thrown r of None \<Rightarrow> Pending | Some f \<Rightarrow> Rejected (Thrown f)),
      cometTimer = poll_interval r,
      timer_running = (poll_interval r \<noteq> None),
      cometLength = 0, lastLine = JNull, comet_calls = [], uncaught = []\<rparr>"

text \<open>A handler returns normally or raises, in either case with the state it leaves.\<close>

datatype 's completion = Normal 's | Throw fault 's

text \<open>Lines 44-62, the \<^verbatim>\<open>readystatechange\<close> listener.\<close>

definition on_readystatechange :: "(string \<Rightarrow> 'j option) \<Rightarrow> 'j invocation \<Rightarrow> 'j invocation completion" where
  "on_readystatechange parse s =
     (if readyState (txn (xhr s)) = 4 then
        let s1 = (if cometTimer s \<noteq> None then
                    s\<lparr>timer_running := False,
                      xhr := (xhr s)\<lparr>responseComet :=
                               Some (substr (responseText (txn (xhr s))) (cometLength s))\<rparr>\<rparr>
                  else s)
        in if 200 \<le> status (txn (xhr s1)) \<and> status (txn (xhr s1)) \<le> 299 then
             if contentTypeHeader (txn (xhr s1)) = Some ''application/json'' then
               (case parse (responseText (txn (xhr s1))) of
                  None \<Rightarrow> Throw SyntaxError s1
                | Some j \<Rightarrow> Normal (resolve (s1\<lparr>xhr := (xhr s1)\<lparr>responseJSON := Some j\<rparr>\<rparr>)))
             else Normal (resolve s1)
           else Normal (reject (Error (statusText (txn (xhr s1)))) s1)
      else Normal s)"

text \<open>Lines 30-42 of version 1.0, the listener without the Comet block.\<close>

definition on_readystatechange_v1 :: "(string \<Rightarrow> 'j option) \<Rightarrow> 'j invocation \<Rightarrow> 'j invocation completion" where
  "on_readystatechange_v1 parse s =
     (if readyState (txn (xhr s)) = 4 then
        if 200 \<le> status (txn (xhr s)) \<and> status (txn (xhr s)) \<le> 299 then
          if contentTypeHeader (txn (xhr s)) = Some ''application/json'' then
            (case parse (responseText (txn (xhr s))) of
               None \<Rightarrow> Throw SyntaxError s
             | Some j \<Rightarrow> Normal (resolve (s\<lparr>xhr := (xhr s)\<lparr>responseJSON := Some j\<rparr>\<rparr>)))
          else Normal (resolve s)
        else Normal (reject (Error (statusText (txn (xhr s)))) s)
      else Normal s)"

text \<open>
  Lines 105-112, the interval callback. \<open>cb_throws\<close> tells whether the caller's
  callback \<^verbatim>\<open>options.comet\<close>, if it is called on this tick, raises; then
  \<^verbatim>\<open>lastLine = line\<close> is not reached. \<^verbatim>\<open>lines[lines.length-2]\<close> is \<^verbatim>\<open>undefined\<close> when
  there is one piece only.
\<close>

definition second_to_last :: "string list \<Rightarrow> jsval" where
  "second_to_last ls = (if 2 \<le> length ls then JStr (ls ! (length ls - 2)) else JUndefined)"

definition comet_tick :: "bool \<Rightarrow> 'j invocation \<Rightarrow> 'j invocation completion" where
  "comet_tick cb_throws s =
     (let s1 = s\<lparr>cometLength := length (responseText (txn (xhr s)))\<rparr>;
          line = second_to_last (split_newlines (responseText (txn (xhr s))))
      in if truthy line \<and> line \<noteq> lastLine s1 then
           (let s2 = s1\<lparr>comet_calls := comet_calls s1 @ [line]\<rparr>
            in if cb_throws then Throw CallbackFault s2 else Normal (s2\<lparr>lastLine := line\<rparr>))
         else Normal (s1\<lparr>lastLine := line\<rparr>))"

text \<open>
  The event loop. The platform writes the transaction's fields and fires
  \<^verbatim>\<open>readystatechange\<close>; the interval timer fires only while it is active
  (\<^verbatim>\<open>clearInterval\<close> has not been called on it). An exception that leaves a handler is
  reported by the platform and nothing else happens.
\<close>

datatype event = ReadyStateChange transaction | Tick bool

definition finish :: "'j invocation completion \<Rightarrow> 'j invocation" where
  "finish c = (case c of Normal s \<Rightarrow> s | Throw f s \<Rightarrow> s\<lparr>uncaught := uncaught s @ [f]\<rparr>)"

fun step :: "(string \<Rightarrow> 'j option) \<Rightarrow> 'j invocation \<Rightarrow> event \<Rightarrow> 'j invocation" where
  "step parse s (ReadyStateChange t) =
     finish (on_readystatechange parse (s\<lparr>xhr := (xhr s)\<lparr>txn := t\<rparr>\<rparr>))"
| "step parse s (Tick cb_throws) = (if timer_running s then finish (comet_tick cb_throws s) else s)"

fun step_v1 :: "(string \<Rightarrow> 'j option) \<Rightarrow> 'j invocation \<Rightarrow> event \<Rightarrow> 'j invocation" where
  "step_v1 parse s (ReadyStateChange t) =
     finish (on_readystatechange_v1 parse (s\<lparr>xhr := (xhr s)\<lparr>txn := t\<rparr>\<rparr>))"
| "step_v1 parse s (Tick cb_throws) = s"

definition run :: "(string \<Rightarrow> 'j option) \<Rightarrow> 'j invocation \<Rightarrow> event list \<Rightarrow> 'j invocation" where
  "run parse s evs = foldl (step parse) s evs"

definition run_v1 :: "(string \<Rightarrow> 'j option) \<Rightarrow> 'j invocation \<Rightarrow> event list \<Rightarrow> 'j invocation" where
  "run_v1 parse s evs = foldl (step_v1 parse) s evs"

fun is_done :: "event \<Rightarrow> bool" where
  "is_done (ReadyStateChange t) = (readyState t = 4)"
| "is_done (Tick b) = False"

definition success_status :: "int \<Rightarrow> bool" where
  "success_status n \<longleftrightarrow> 200 \<le> n \<and> n \<le> 299"

text \<open>
  The state of an invocation after the events \<open>evs\<close> followed by the lifecycle event
  that delivers the transaction \<open>t\<close>.
\<close>

definition after_completion ::
  "(string \<Rightarrow> 'j option) \<Rightarrow> descriptor \<Rightarrow> event list \<Rightarrow> transaction \<Rightarrow> 'j invocation" where
  "after_completion parse d evs t = run parse (start (ajax d)) (evs @ [ReadyStateChange t])"

definition after_completion_v1 ::
  "(string \<Rightarrow> 'j option) \<Rightarrow> descriptor \<Rightarrow> event list \<Rightarrow> transaction \<Rightarrow> 'j invocation" where
  "after_completion_v1 parse d evs t =
     run_v1 parse (start (ajax_v1 d)) (evs @ [ReadyStateChange t])"

fun is_tick :: "event \<Rightarrow> bool" where
  "is_tick (Tick b) = True"
| "is_tick (ReadyStateChange t) = False"

text \<open>The value of \<^verbatim>\<open>line\<close> that a polling tick computes in the state \<open>s\<close> (lines 107-108).\<close>

definition selected_line :: "'j invocation \<Rightarrow> jsval" where
  "selected_line s = second_to_last (split_newlines (responseText (txn (xhr s))))"

text \<open>A request body that is an object or an array: not \<^verbatim>\<open>null\<close> and not FormData.\<close>

fun plain_object :: "jsval \<Rightarrow> bool" where
  "plain_object (JObj kvs) = True"
| "plain_object (JArr xs) = True"
| "plain_object v = False"

text \<open>
  The timer invariant of an invocation: a settled promise goes with a stopped timer,
  and a running timer is the one whose handle \<^verbatim>\<open>cometTimer\<close> holds.
\<close>

definition timer_inv :: "'j invocation \<Rightarrow> bool" where
  "timer_inv s \<longleftrightarrow>
     (promise s \<noteq> Pending \<longrightarrow> \<not> timer_running s) \<and> (timer_running s \<longrightarrow> cometTimer s \<noteq> None)"


section \<open>Properties\<close>

subsection \<open>Facts about the event loop\<close>

lemma finish_simps [simp]:
  "finish (Normal s) = s"
  "finish (Throw f s) = s\<lparr>uncaught := uncaught s @ [f]\<rparr>"
  by (simp_all add: finish_def)

lemma resolve_fields [simp]:
  "xhr (resolve s) = xhr s" "cometTimer (resolve s) = cometTimer s"
  "timer_running (resolve s) = timer_running s" "cometLength (resolve s) = cometLength s"
  "lastLine (resolve s) = lastLine s" "comet_calls (resolve s) = comet_calls s"
  "uncaught (resolve s) = uncaught s"
  by (simp_all add: resolve_def split: promise.splits)

lemma reject_fields [simp]:
  "xhr (reject e s) = xhr s" "cometTimer (reject e s) = cometTimer s"
  "timer_running (reject e s) = timer_running s" "cometLength (reject e s) = cometLength s"
  "lastLine (reject e s) = lastLine s" "comet_calls (reject e s) = comet_calls s"
  "uncaught (reject e s) = uncaught s"
  by (simp_all add: reject_def split: promise.splits)

lemma promise_resolve: "promise (resolve s) = (if promise s = Pending then Resolved (xhr s) else promise s)"
  by (simp add: resolve_def split: promise.splits)

lemma promise_reject: "promise (reject e s) = (if promise s = Pending then Rejected e else promise s)"
  by (simp add: reject_def split: promise.splits)

lemma comet_tick_promise [simp]: "promise (finish (comet_tick b s)) = promise s"
  by (simp add: comet_tick_def Let_def)

lemma comet_tick_xhr [simp]: "xhr (finish (comet_tick b s)) = xhr s"
  by (simp add: comet_tick_def Let_def)

lemma step_not_done_promise: "\<not> is_done e \<Longrightarrow> promise (step parse s e) = promise s"
  by (cases e) (simp_all add: on_readystatechange_def)

lemma step_not_done_added:
  "\<not> is_done e \<Longrightarrow> responseJSON (xhr (step parse s e)) = responseJSON (xhr s)"
  by (cases e) (simp_all add: on_readystatechange_def)

lemma run_snoc: "run parse s (evs @ [e]) = step parse (run parse s evs) e"
  by (simp add: run_def)

lemma run_append: "run parse s (evs @ rest) = run parse (run parse s evs) rest"
  by (simp add: run_def)

lemma run_not_done_promise:
  "\<forall>e\<in>set evs. \<not> is_done e \<Longrightarrow> promise (run parse s evs) = promise s"
  by (induction evs rule: rev_induct) (simp_all add: run_snoc step_not_done_promise, simp add: run_def)

lemma run_not_done_added:
  "\<forall>e\<in>set evs. \<not> is_done e \<Longrightarrow> responseJSON (xhr (run parse s evs)) = responseJSON (xhr s)"
  by (induction evs rule: rev_induct) (simp_all add: run_snoc step_not_done_added, simp add: run_def)

lemma thrown_v1: "thrown (ajax_v1 d) = thrown (ajax d)"
  by (simp add: ajax_v1_def ajax_def ajax_v1_executor_def ajax_executor_def Let_def split: sum.splits)

lemma start_promise: "thrown r = None \<Longrightarrow> promise (start r) = Pending"
  by (simp add: start_def)

lemma step_done_failure:
  "promise s = Pending \<Longrightarrow> readyState t = 4 \<Longrightarrow> \<not> success_status (status t) \<Longrightarrow>
   promise (step parse s (ReadyStateChange t)) = Rejected (Error (statusText t))"
  by (auto simp add: on_readystatechange_def success_status_def Let_def promise_reject)

lemma step_v1_not_done_promise: "\<not> is_done e \<Longrightarrow> promise (step_v1 parse s e) = promise s"
  by (cases e) (simp_all add: on_readystatechange_v1_def)

lemma step_v1_not_done_added:
  "\<not> is_done e \<Longrightarrow> responseJSON (xhr (step_v1 parse s e)) = responseJSON (xhr s)"
  by (cases e) (simp_all add: on_readystatechange_v1_def)

lemma run_v1_snoc: "run_v1 parse s (evs @ [e]) = step_v1 parse (run_v1 parse s evs) e"
  by (simp add: run_v1_def)

lemma run_v1_not_done_promise:
  "\<forall>e\<in>set evs. \<not> is_done e \<Longrightarrow> promise (run_v1 parse s evs) = promise s"
  by (induction evs rule: rev_induct) (simp_all add: run_v1_snoc step_v1_not_done_promise, simp add: run_v1_def)

lemma run_v1_not_done_added:
  "\<forall>e\<in>set evs. \<not> is_done e \<Longrightarrow> responseJSON (xhr (run_v1 parse s evs)) = responseJSON (xhr s)"
  by (induction evs rule: rev_induct) (simp_all add: run_v1_snoc step_v1_not_done_added, simp add: run_v1_def)

lemma step_v1_done_failure:
  "promise s = Pending \<Longrightarrow> readyState t = 4 \<Longrightarrow> \<not> success_status (status t) \<Longrightarrow>
   promise (step_v1 parse s (ReadyStateChange t)) = Rejected (Error (statusText t))"
  by (auto simp add: on_readystatechange_v1_def success_status_def Let_def promise_reject)

lemma pending_before_done:
  "thrown (ajax d) = None \<Longrightarrow> \<forall>e\<in>set evs. \<not> is_done e \<Longrightarrow>
   promise (run parse (start (ajax d)) evs) = Pending"
  by (simp add: run_not_done_promise start_promise)

lemma pending_before_done_v1:
  "thrown (ajax d) = None \<Longrightarrow> \<forall>e\<in>set evs. \<not> is_done e \<Longrightarrow>
   promise (run_v1 parse (start (ajax_v1 d)) evs) = Pending"
  by (simp add: run_v1_not_done_promise start_promise thrown_v1)

lemma no_json_before_done:
  "\<forall>e\<in>set evs. \<not> is_done e \<Longrightarrow> responseJSON (xhr (run parse (start r) evs)) = None"
  by (simp add: run_not_done_added) (simp add: start_def)

lemma no_json_before_done_v1:
  "\<forall>e\<in>set evs. \<not> is_done e \<Longrightarrow> responseJSON (xhr (run_v1 parse (start r) evs)) = None"
  by (simp add: run_v1_not_done_added) (simp add: start_def)

subsection \<open>Status outside 200-299\<close>

text \<open>
  Claim C4. When the request has been sent and the transaction completes with a status
  outside 200-299, the promise is rejected with an \<^verbatim>\<open>Error\<close> whose message is the
  transaction's status text, whatever the response text and its content type are. This
  holds for version 1.1 and for version 1.0. The events before the completion are any
  polling ticks and non-terminal lifecycle events.
\<close>

theorem failure_status_rejects:
  assumes "thrown (ajax d) = None" and "\<forall>e\<in>set evs. \<not> is_done e"
    and "readyState t = 4" and "\<not> success_status (status t)"
  shows "promise (after_completion parse d evs t) = Rejected (Error (statusText t))
       \<and> promise (after_completion_v1 parse d evs t) = Rejected (Error (statusText t))"
  using assms
  by (simp add: after_completion_def after_completion_v1_def run_snoc run_v1_snoc
      step_done_failure step_v1_done_failure pending_before_done pending_before_done_v1
      del: step.simps step_v1.simps)

theorem failure_status_rejects_witness:
  "thrown (ajax (DString ''/missing'')) = None
   \<and> \<not> is_done (ReadyStateChange \<lparr>readyState = 3, status = 404, statusText = ''Not Found'',
                     responseText = ''{'', contentTypeHeader = Some ''application/json''\<rparr>)
   \<and> \<not> is_done (Tick False)
   \<and> \<not> success_status 404
   \<and> promise (after_completion (\<lambda>s. None :: nat option) (DString ''/missing'')
        [ReadyStateChange \<lparr>readyState = 3, status = 404, statusText = ''Not Found'',
           responseText = ''{'', contentTypeHeader = Some ''application/json''\<rparr>, Tick False]
        \<lparr>readyState = 4, status = 404, statusText = ''Not Found'',
          responseText = ''{}'', contentTypeHeader = Some ''application/json''\<rparr>)
       = Rejected (Error ''Not Found'')"
proof -
  have h1: "thrown (ajax (DString ''/missing'')) = None"
    by (simp add: ajax_def ajax_executor_def normalize_options_def no_options_def assemble_headers_def
        serialize_data_def Let_def)
  have h2: "\<forall>e\<in>set [ReadyStateChange \<lparr>readyState = 3, status = 404, statusText = ''Not Found'',
                     responseText = ''{'', contentTypeHeader = Some ''application/json''\<rparr>, Tick False].
        \<not> is_done e"
    by simp
  have h3: "readyState \<lparr>readyState = 4, status = 404, statusText = ''Not Found'',
          responseText = ''{}'', contentTypeHeader = Some ''application/json''\<rparr> = 4"
    by simp
  have h4: "\<not> success_status (status \<lparr>readyState = 4, status = 404, statusText = ''Not Found'',
          responseText = ''{}'', contentTypeHeader = Some ''application/json''\<rparr>)"
    by (simp add: success_status_def)
  from failure_status_rejects [OF h1 h2 h3 h4, of "\<lambda>s. None :: nat option"] h1 h2 h4
  show ?thesis by simp
qed


subsection \<open>Successful responses\<close>

lemma step_done_success_json:
  "promise s = Pending \<Longrightarrow> readyState t = 4 \<Longrightarrow> success_status (status t) \<Longrightarrow>
   contentTypeHeader t = Some ''application/json'' \<Longrightarrow> parse (responseText t) = Some j \<Longrightarrow>
   promise (step parse s (ReadyStateChange t)) = Resolved (xhr (step parse s (ReadyStateChange t)))
   \<and> responseJSON (xhr (step parse s (ReadyStateChange t))) = Some j
   \<and> txn (xhr (step parse s (ReadyStateChange t))) = t"
  by (simp add: on_readystatechange_def success_status_def Let_def promise_resolve)

lemma step_done_success_other:
  "promise s = Pending \<Longrightarrow> readyState t = 4 \<Longrightarrow> success_status (status t) \<Longrightarrow>
   contentTypeHeader t \<noteq> Some ''application/json'' \<Longrightarrow>
   promise (step parse s (ReadyStateChange t)) = Resolved (xhr (step parse s (ReadyStateChange t)))
   \<and> responseJSON (xhr (step parse s (ReadyStateChange t))) = responseJSON (xhr s)
   \<and> txn (xhr (step parse s (ReadyStateChange t))) = t"
  by (simp add: on_readystatechange_def success_status_def Let_def promise_resolve)

lemma step_done_parse_failure:
  "readyState t = 4 \<Longrightarrow> success_status (status t) \<Longrightarrow>
   contentTypeHeader t = Some ''application/json'' \<Longrightarrow> parse (responseText t) = None \<Longrightarrow>
   promise (step parse s (ReadyStateChange t)) = promise s
   \<and> uncaught (step parse s (ReadyStateChange t)) = uncaught s @ [SyntaxError]
   \<and> responseJSON (xhr (step parse s (ReadyStateChange t))) = responseJSON (xhr s)"
  by (simp add: on_readystatechange_def success_status_def Let_def)

lemma step_v1_done_success_json:
  "promise s = Pending \<Longrightarrow> readyState t = 4 \<Longrightarrow> success_status (status t) \<Longrightarrow>
   contentTypeHeader t = Some ''application/json'' \<Longrightarrow> parse (responseText t) = Some j \<Longrightarrow>
   promise (step_v1 parse s (ReadyStateChange t)) = Resolved (xhr (step_v1 parse s (ReadyStateChange t)))
   \<and> responseJSON (xhr (step_v1 parse s (ReadyStateChange t))) = Some j
   \<and> txn (xhr (step_v1 parse s (ReadyStateChange t))) = t"
  by (simp add: on_readystatechange_v1_def success_status_def Let_def promise_resolve)

lemma step_v1_done_success_other:
  "promise s = Pending \<Longrightarrow> readyState t = 4 \<Longrightarrow> success_status (status t) \<Longrightarrow>
   contentTypeHeader t \<noteq> Some ''application/json'' \<Longrightarrow>
   promise (step_v1 parse s (ReadyStateChange t)) = Resolved (xhr (step_v1 parse s (ReadyStateChange t)))
   \<and> responseJSON (xhr (step_v1 parse s (ReadyStateChange t))) = responseJSON (xhr s)
   \<and> txn (xhr (step_v1 parse s (ReadyStateChange t))) = t"
  by (simp add: on_readystatechange_v1_def success_status_def Let_def promise_resolve)

lemma step_v1_done_parse_failure:
  "readyState t = 4 \<Longrightarrow> success_status (status t) \<Longrightarrow>
   contentTypeHeader t = Some ''application/json'' \<Longrightarrow> parse (responseText t) = None \<Longrightarrow>
   promise (step_v1 parse s (ReadyStateChange t)) = promise s
   \<and> uncaught (step_v1 parse s (ReadyStateChange t)) = uncaught s @ [SyntaxError]
   \<and> responseJSON (xhr (step_v1 parse s (ReadyStateChange t))) = responseJSON (xhr s)"
  by (simp add: on_readystatechange_v1_def success_status_def Let_def)

lemma after_completion_step:
  "after_completion parse d evs t = step parse (run parse (start (ajax d)) evs) (ReadyStateChange t)"
  by (simp add: after_completion_def run_snoc del: step.simps)

lemma after_completion_v1_step:
  "after_completion_v1 parse d evs t =
     step_v1 parse (run_v1 parse (start (ajax_v1 d)) evs) (ReadyStateChange t)"
  by (simp add: after_completion_v1_def run_v1_snoc del: step_v1.simps)

text \<open>
  Claim C5. When the request has been sent and the transaction completes with a status
  in 200-299: if \<^verbatim>\<open>getResponseHeader('Content-Type')\<close> is exactly
  \<^verbatim>\<open>application/json\<close> and the response text parses, the promise is resolved with the
  request object and its \<^verbatim>\<open>responseJSON\<close> property is the result of \<^verbatim>\<open>JSON.parse\<close> on
  the response text; if the content type is anything else (or there is none), the
  promise is resolved with the request object and no \<^verbatim>\<open>responseJSON\<close> property is
  attached. Versions 1.1 and 1.0 agree.
\<close>

theorem success_json_field:
  assumes sent: "thrown (ajax d) = None" and first: "\<forall>e\<in>set evs. \<not> is_done e"
    and fin: "readyState t = 4" and ok: "success_status (status t)"
  shows "(contentTypeHeader t = Some ''application/json'' \<longrightarrow> parse (responseText t) \<noteq> None \<longrightarrow>
            promise (after_completion parse d evs t) = Resolved (xhr (after_completion parse d evs t))
          \<and> responseJSON (xhr (after_completion parse d evs t)) = parse (responseText t)
          \<and> promise (after_completion_v1 parse d evs t)
              = Resolved (xhr (after_completion_v1 parse d evs t))
          \<and> responseJSON (xhr (after_completion_v1 parse d evs t)) = parse (responseText t))
       \<and> (contentTypeHeader t \<noteq> Some ''application/json'' \<longrightarrow>
            promise (after_completion parse d evs t) = Resolved (xhr (after_completion parse d evs t))
          \<and> responseJSON (xhr (after_completion parse d evs t)) = None
          \<and> promise (after_completion_v1 parse d evs t)
              = Resolved (xhr (after_completion_v1 parse d evs t))
          \<and> responseJSON (xhr (after_completion_v1 parse d evs t)) = None)"
proof -
  let ?s = "run parse (start (ajax d)) evs"
  let ?s1 = "run_v1 parse (start (ajax_v1 d)) evs"
  have p: "promise ?s = Pending" "promise ?s1 = Pending"
    using sent first by (simp_all add: pending_before_done pending_before_done_v1)
  have n: "responseJSON (xhr ?s) = None" "responseJSON (xhr ?s1) = None"
    using first by (simp_all add: no_json_before_done no_json_before_done_v1)
  show ?thesis
  proof (intro conjI impI)
    assume ct: "contentTypeHeader t = Some ''application/json''" and pj: "parse (responseText t) \<noteq> None"
    then obtain j where j: "parse (responseText t) = Some j" by auto
    note a = step_done_success_json [where parse = parse, OF p(1) fin ok ct j]
    note b = step_v1_done_success_json [where parse = parse, OF p(2) fin ok ct j]
    show "promise (after_completion parse d evs t) = Resolved (xhr (after_completion parse d evs t))"
      using a by (simp only: after_completion_step)
    show "responseJSON (xhr (after_completion parse d evs t)) = parse (responseText t)"
      using a j by (simp only: after_completion_step)
    show "promise (after_completion_v1 parse d evs t) = Resolved (xhr (after_completion_v1 parse d evs t))"
      using b by (simp only: after_completion_v1_step)
    show "responseJSON (xhr (after_completion_v1 parse d evs t)) = parse (responseText t)"
      using b j by (simp only: after_completion_v1_step)
  next
    assume ct: "contentTypeHeader t \<noteq> Some ''application/json''"
    note a = step_done_success_other [where parse = parse, OF p(1) fin ok ct]
    note b = step_v1_done_success_other [where parse = parse, OF p(2) fin ok ct]
    show "promise (after_completion parse d evs t) = Resolved (xhr (after_completion parse d evs t))"
      using a by (simp only: after_completion_step)
    show "responseJSON (xhr (after_completion parse d evs t)) = None"
      using a n by (simp only: after_completion_step)
    show "promise (after_completion_v1 parse d evs t) = Resolved (xhr (after_completion_v1 parse d evs t))"
      using b by (simp only: after_completion_v1_step)
    show "responseJSON (xhr (after_completion_v1 parse d evs t)) = None"
      using b n by (simp only: after_completion_v1_step)
  qed
qed


text \<open>The definitions that evaluate a call and an event trace on concrete inputs.\<close>

lemmas ajax_eval =
  ajax_def ajax_executor_def ajax_v1_def ajax_v1_executor_def normalize_options_def no_options_def
  assemble_headers_def serialize_data_def comet_interval_def headers_of_def
  active_content_type_def header_calls_of_def open_arguments_def js_or_def Let_def

lemmas loop_eval =
  run_def run_v1_def start_def after_completion_def after_completion_v1_def
  on_readystatechange_def on_readystatechange_v1_def comet_tick_def second_to_last_def
  split_newlines_def is_newline_def substr_def resolve_def reject_def success_status_def

theorem success_json_field_witness:
  \<open>thrown (ajax (DString ''/data'')) = None
   \<and> \<not> is_done (Tick False)
   \<and> success_status 200
   \<and> promise (after_completion
          (\<lambda>s. if s = ''{"a":1}'' then Some (JObj [(''a'', JNum 1)]) else None)
          (DString ''/data'') [Tick False]
          \<lparr>readyState = 4, status = 200, statusText = ''OK'', responseText = ''{"a":1}'',
            contentTypeHeader = Some ''application/json''\<rparr>)
       = Resolved \<lparr>txn = \<lparr>readyState = 4, status = 200, statusText = ''OK'',
                            responseText = ''{"a":1}'',
                            contentTypeHeader = Some ''application/json''\<rparr>,
                    responseJSON = Some (JObj [(''a'', JNum 1)]), responseComet = None\<rparr>
   \<and> responseJSON (xhr (after_completion
          (\<lambda>s. if s = ''{"a":1}'' then Some (JObj [(''a'', JNum 1)]) else None)
          (DString ''/data'') [Tick False]
          \<lparr>readyState = 4, status = 200, statusText = ''OK'', responseText = ''{"a":1}'',
            contentTypeHeader = Some ''text/plain''\<rparr>)) = None\<close>
proof -
  let ?parse = \<open>\<lambda>s. if s = ''{"a":1}'' then Some (JObj [(''a'', JNum 1)]) else None\<close>
  let ?t1 = \<open>\<lparr>readyState = 4, status = 200, statusText = ''OK'', responseText = ''{"a":1}'',
            contentTypeHeader = Some ''application/json''\<rparr>\<close>
  let ?t2 = \<open>\<lparr>readyState = 4, status = 200, statusText = ''OK'', responseText = ''{"a":1}'',
            contentTypeHeader = Some ''text/plain''\<rparr>\<close>
  have h1: "thrown (ajax (DString ''/data'')) = None"
    by (simp add: ajax_def ajax_executor_def normalize_options_def no_options_def assemble_headers_def
        serialize_data_def Let_def)
  have h2: "\<forall>e\<in>set [Tick False]. \<not> is_done e" by simp
  have h3: "success_status 200" by (simp add: success_status_def)
  have x: "xhr (after_completion ?parse (DString ''/data'') [Tick False] ?t1)
      = \<lparr>txn = ?t1, responseJSON = Some (JObj [(''a'', JNum 1)]), responseComet = None\<rparr>"
    by (simp add: ajax_eval loop_eval)
  from success_json_field [OF h1 h2, of ?t1 ?parse] success_json_field [OF h1 h2, of ?t2 ?parse]
    h1 h3 x
  show ?thesis by simp
qed

text \<open>
  Claim C9. When the request has been sent and the transaction completes with a status
  in 200-299, a content type that is exactly \<^verbatim>\<open>application/json\<close> and a response text
  on which \<^verbatim>\<open>JSON.parse\<close> raises, the listener does not catch the SyntaxError: it
  leaves the handler uncaught, the promise is neither resolved nor rejected, and no
  \<^verbatim>\<open>responseJSON\<close> property is attached. Versions 1.1 and 1.0 agree.
\<close>

theorem unparsable_json_not_settled:
  assumes sent: "thrown (ajax d) = None" and first: "\<forall>e\<in>set evs. \<not> is_done e"
    and fin: "readyState t = 4" and ok: "success_status (status t)"
    and ct: "contentTypeHeader t = Some ''application/json''"
    and bad: "parse (responseText t) = None"
  shows "promise (after_completion parse d evs t) = Pending
       \<and> uncaught (after_completion parse d evs t)
           = uncaught (run parse (start (ajax d)) evs) @ [SyntaxError]
       \<and> responseJSON (xhr (after_completion parse d evs t)) = None
       \<and> promise (after_completion_v1 parse d evs t) = Pending
       \<and> uncaught (after_completion_v1 parse d evs t)
           = uncaught (run_v1 parse (start (ajax_v1 d)) evs) @ [SyntaxError]
       \<and> responseJSON (xhr (after_completion_v1 parse d evs t)) = None"
proof -
  let ?s = "run parse (start (ajax d)) evs"
  let ?s1 = "run_v1 parse (start (ajax_v1 d)) evs"
  have p: "promise ?s = Pending" "promise ?s1 = Pending"
    using sent first by (simp_all add: pending_before_done pending_before_done_v1)
  have n: "responseJSON (xhr ?s) = None" "responseJSON (xhr ?s1) = None"
    using first by (simp_all add: no_json_before_done no_json_before_done_v1)
  note a = step_done_parse_failure [where parse = parse and s = ?s, OF fin ok ct bad]
  note b = step_v1_done_parse_failure [where parse = parse and s = ?s1, OF fin ok ct bad]
  show ?thesis
    using a b p n by (simp only: after_completion_step after_completion_v1_step)
qed

theorem unparsable_json_not_settled_witness:
  "thrown (ajax (DString ''/data'')) = None
   \<and> \<not> is_done (Tick False)
   \<and> success_status 200
   \<and> promise (after_completion (\<lambda>s. None :: unit option) (DString ''/data'') [Tick False]
          \<lparr>readyState = 4, status = 200, statusText = ''OK'', responseText = ''{'',
            contentTypeHeader = Some ''application/json''\<rparr>) = Pending
   \<and> uncaught (after_completion (\<lambda>s. None :: unit option) (DString ''/data'') [Tick False]
          \<lparr>readyState = 4, status = 200, statusText = ''OK'', responseText = ''{'',
            contentTypeHeader = Some ''application/json''\<rparr>) = [SyntaxError]"
proof -
  let ?t = "\<lparr>readyState = 4, status = 200, statusText = ''OK'', responseText = ''{'',
            contentTypeHeader = Some ''application/json''\<rparr>"
  have h1: "thrown (ajax (DString ''/data'')) = None"
    by (simp add: ajax_def ajax_executor_def normalize_options_def no_options_def assemble_headers_def
        serialize_data_def Let_def)
  have h2: "\<forall>e\<in>set [Tick False]. \<not> is_done e" by simp
  have h3: "success_status 200" by (simp add: success_status_def)
  have u: "uncaught (run (\<lambda>s. None :: unit option) (start (ajax (DString ''/data''))) [Tick False]) = []"
    by (simp add: run_def start_def ajax_def ajax_executor_def normalize_options_def no_options_def
        assemble_headers_def serialize_data_def comet_interval_def Let_def)
  from unparsable_json_not_settled [OF h1 h2, of ?t "\<lambda>s. None :: unit option"] h1 h3 u
  show ?thesis by simp
qed

subsection \<open>The asynchronous flag\<close>

lemma open_call_ajax: "open_call (ajax d) = open_arguments (normalize_options d)"
  by (simp add: ajax_def ajax_executor_def Let_def split: sum.splits)

lemma open_call_ajax_v1: "open_call (ajax_v1 d) = open_arguments (normalize_options d)"
  by (simp add: ajax_v1_def ajax_v1_executor_def Let_def split: sum.splits)

text \<open>
  Claim C8. The third argument of \<^verbatim>\<open>xhr.open\<close> is \<^verbatim>\<open>options.async || true\<close>, in
  version 1.1 and in version 1.0. It is always truthy, and it is \<^verbatim>\<open>true\<close> whenever the
  supplied value is falsy or the property is absent, an explicit \<^verbatim>\<open>false\<close> included.
\<close>

theorem async_flag_always_true:
  "open_async (open_call (ajax d)) = js_or (async (normalize_options d)) (JBool True)
   \<and> open_async (open_call (ajax_v1 d)) = js_or (async (normalize_options d)) (JBool True)
   \<and> truthy (open_async (open_call (ajax d)))
   \<and> (\<not> truthy (async (normalize_options d)) \<longrightarrow>
        open_async (open_call (ajax d)) = JBool True
      \<and> open_async (open_call (ajax_v1 d)) = JBool True)"
  by (simp add: open_call_ajax open_call_ajax_v1 open_arguments_def js_or_def)

theorem async_flag_always_true_witness:
  "\<not> truthy (JBool False)
   \<and> open_async (open_call (ajax (DObject (no_options\<lparr>url := Some ''/u'', async := JBool False\<rparr>))))
       = JBool True
   \<and> open_async (open_call (ajax_v1 (DObject (no_options\<lparr>url := Some ''/u'', async := JBool False\<rparr>))))
       = JBool True
   \<and> open_async (open_call (ajax (DString ''/u''))) = JBool True"
  using async_flag_always_true [of "DObject (no_options\<lparr>url := Some ''/u'', async := JBool False\<rparr>)"]
    async_flag_always_true [of "DString ''/u''"]
  by (simp add: normalize_options_def no_options_def js_or_def)

subsection \<open>Comet mode: completion\<close>

lemma step_cometTimer [simp]: "cometTimer (step parse s e) = cometTimer s"
  by (cases e) (simp_all add: on_readystatechange_def comet_tick_def Let_def split: option.splits)

lemma run_cometTimer [simp]: "cometTimer (run parse s evs) = cometTimer s"
  by (induction evs rule: rev_induct) (simp_all add: run_snoc del: step.simps, simp add: run_def)

lemma step_stopped:
  "\<not> timer_running s \<Longrightarrow>
   \<not> timer_running (step parse s e) \<and> comet_calls (step parse s e) = comet_calls s
   \<and> cometLength (step parse s e) = cometLength s \<and> lastLine (step parse s e) = lastLine s"
  by (cases e) (simp_all add: on_readystatechange_def Let_def split: option.splits)

lemma run_stopped:
  "\<not> timer_running s \<Longrightarrow>
   \<not> timer_running (run parse s evs) \<and> comet_calls (run parse s evs) = comet_calls s
   \<and> cometLength (run parse s evs) = cometLength s \<and> lastLine (run parse s evs) = lastLine s"
proof (induction evs rule: rev_induct)
  case Nil
  then show ?case by (simp add: run_def)
next
  case (snoc e evs)
  then show ?case
    using step_stopped [of "run parse s evs" parse e] by (simp add: run_snoc del: step.simps)
qed

lemma step_done_comet:
  "cometTimer s \<noteq> None \<Longrightarrow> readyState t = 4 \<Longrightarrow>
   responseComet (xhr (step parse s (ReadyStateChange t)))
     = Some (substr (responseText t) (cometLength s))
   \<and> \<not> timer_running (step parse s (ReadyStateChange t))
   \<and> comet_calls (step parse s (ReadyStateChange t)) = comet_calls s"
  by (simp add: on_readystatechange_def Let_def split: option.splits)

lemma start_cometTimer: "cometTimer (start r) = poll_interval r"
  by (simp add: start_def)

lemma assemble_headers_frame [simp]:
  "data (assemble_headers opts) = data opts"
  "comet (assemble_headers opts) = comet opts"
  "cometPollRate (assemble_headers opts) = cometPollRate opts"
  "contentType (assemble_headers opts) = contentType opts"
  "url (assemble_headers opts) = url opts"
  "http_method (assemble_headers opts) = http_method opts"
  "async (assemble_headers opts) = async opts"
  "user (assemble_headers opts) = user opts"
  "password (assemble_headers opts) = password opts"
  by (simp_all add: assemble_headers_def Let_def split: option.splits)

lemma serialize_data_frame:
  "serialize_data opts = Inr o2 \<Longrightarrow>
   comet o2 = comet opts \<and> cometPollRate o2 = cometPollRate opts \<and> headers o2 = headers opts
   \<and> contentType o2 = contentType opts \<and> url o2 = url opts
   \<and> http_method o2 = http_method opts \<and> async o2 = async opts \<and> user o2 = user opts
   \<and> password o2 = password opts"
  by (auto simp add: serialize_data_def split: if_splits option.splits)

lemma poll_interval_ajax:
  "poll_interval (ajax d) \<noteq> None \<longleftrightarrow>
     comet (normalize_options d) = CometFunction \<and> thrown (ajax d) = None"
proof (cases "serialize_data (assemble_headers (normalize_options d))")
  case (Inl f)
  then show ?thesis by (simp add: ajax_def ajax_executor_def Let_def)
next
  case (Inr o2)
  then show ?thesis
    using serialize_data_frame [OF Inr]
    by (simp add: ajax_def ajax_executor_def Let_def comet_interval_def)
qed

text \<open>
  Claim C3. In Comet mode (\<^verbatim>\<open>options.comet\<close> is a function and the request has been
  sent), when a lifecycle event delivers the transaction in its terminal state, the
  request object gets the property \<^verbatim>\<open>responseComet\<close>, equal to the response text from
  the offset \<^verbatim>\<open>cometLength\<close> that the last polling tick has recorded (0 when there was
  none); the interval timer is stopped and stays stopped, and whatever events follow,
  the callback is not called again. When this is the first terminal event and the
  promise is resolved, the object it is resolved with carries that property.
\<close>

theorem comet_tail_on_completion:
  assumes mode: "comet (normalize_options d) = CometFunction" and sent: "thrown (ajax d) = None"
    and fin: "readyState t = 4"
  shows "responseComet (xhr (after_completion parse d evs t))
           = Some (substr (responseText t) (cometLength (run parse (start (ajax d)) evs)))
       \<and> \<not> timer_running (run parse (after_completion parse d evs t) rest)
       \<and> comet_calls (run parse (after_completion parse d evs t) rest)
           = comet_calls (run parse (start (ajax d)) evs)
       \<and> ((\<forall>e\<in>set evs. \<not> is_done e) \<longrightarrow>
            (\<forall>x. promise (after_completion parse d evs t) = Resolved x \<longrightarrow>
                 responseComet x
                   = Some (substr (responseText t) (cometLength (run parse (start (ajax d)) evs)))))"
proof -
  let ?s = "run parse (start (ajax d)) evs"
  let ?s' = "after_completion parse d evs t"
  have timer: "cometTimer ?s \<noteq> None"
    using mode sent poll_interval_ajax [of d] by (simp add: start_cometTimer)
  note a = step_done_comet [where parse = parse, OF timer fin]
  have tail: "responseComet (xhr ?s') = Some (substr (responseText t) (cometLength ?s))"
    and stopped: "\<not> timer_running ?s'" and calls: "comet_calls ?s' = comet_calls ?s"
    using a by (simp_all add: after_completion_step del: step.simps)
  have later: "\<not> timer_running (run parse ?s' rest)"
    "comet_calls (run parse ?s' rest) = comet_calls ?s'"
    using run_stopped [OF stopped, of parse rest] by simp_all
  have resolved: "responseComet x = Some (substr (responseText t) (cometLength ?s))"
    if first: "\<forall>e\<in>set evs. \<not> is_done e" and r: "promise ?s' = Resolved x" for x
  proof -
    have p: "promise ?s = Pending"
      using sent first by (rule pending_before_done)
    have "promise ?s' = Pending \<or> promise ?s' = Resolved (xhr ?s') \<or> (\<exists>e. promise ?s' = Rejected e)"
      using p
      by (simp add: after_completion_step on_readystatechange_def Let_def promise_resolve
          promise_reject split: option.splits)
    with r have "x = xhr ?s'" by auto
    with tail show ?thesis by simp
  qed
  show ?thesis
    using tail later calls resolved by simp
qed


theorem comet_tail_on_completion_witness:
  "comet (normalize_options (DObject (no_options\<lparr>url := Some ''/stream'', comet := CometFunction\<rparr>)))
     = CometFunction
   \<and> thrown (ajax (DObject (no_options\<lparr>url := Some ''/stream'', comet := CometFunction\<rparr>))) = None
   \<and> responseComet (xhr (after_completion (\<lambda>s. None :: unit option)
         (DObject (no_options\<lparr>url := Some ''/stream'', comet := CometFunction\<rparr>))
         [ReadyStateChange \<lparr>readyState = 3, status = 200, statusText = ''OK'',
            responseText = [CHR ''a'', CHR 0x0A, CHR ''b'', CHR 0x0A], contentTypeHeader = None\<rparr>,
          Tick False]
         \<lparr>readyState = 4, status = 200, statusText = ''OK'',
           responseText = [CHR ''a'', CHR 0x0A, CHR ''b'', CHR 0x0A, CHR ''c'', CHR ''d''],
           contentTypeHeader = None\<rparr>)) = Some ''cd''
   \<and> comet_calls (run (\<lambda>s. None :: unit option) (after_completion (\<lambda>s. None :: unit option)
         (DObject (no_options\<lparr>url := Some ''/stream'', comet := CometFunction\<rparr>))
         [ReadyStateChange \<lparr>readyState = 3, status = 200, statusText = ''OK'',
            responseText = [CHR ''a'', CHR 0x0A, CHR ''b'', CHR 0x0A], contentTypeHeader = None\<rparr>,
          Tick False]
         \<lparr>readyState = 4, status = 200, statusText = ''OK'',
           responseText = [CHR ''a'', CHR 0x0A, CHR ''b'', CHR 0x0A, CHR ''c'', CHR ''d''],
           contentTypeHeader = None\<rparr>) [Tick False, Tick False]) = [JStr ''b'']"
proof -
  let ?d = "DObject (no_options\<lparr>url := Some ''/stream'', comet := CometFunction\<rparr>)"
  let ?evs = "[ReadyStateChange \<lparr>readyState = 3, status = 200, statusText = ''OK'',
            responseText = [CHR ''a'', CHR 0x0A, CHR ''b'', CHR 0x0A], contentTypeHeader = None\<rparr>,
          Tick False]"
  let ?t = "\<lparr>readyState = 4, status = 200, statusText = ''OK'',
           responseText = [CHR ''a'', CHR 0x0A, CHR ''b'', CHR 0x0A, CHR ''c'', CHR ''d''],
           contentTypeHeader = None\<rparr>"
  have h1: "comet (normalize_options ?d) = CometFunction"
    by (simp add: normalize_options_def no_options_def)
  have h2: "thrown (ajax ?d) = None"
    by (simp add: ajax_eval)
  have h3: "readyState ?t = 4" by simp
  have before: "cometLength (run (\<lambda>s. None :: unit option) (start (ajax ?d)) ?evs) = 4"
    "comet_calls (run (\<lambda>s. None :: unit option) (start (ajax ?d)) ?evs) = [JStr ''b'']"
    by (simp_all add: ajax_eval loop_eval)
  from comet_tail_on_completion [OF h1 h2 h3, of "\<lambda>s. None :: unit option" ?evs "[Tick False, Tick False]"]
    h1 h2 before
  show ?thesis by (simp add: substr_def)
qed

subsection \<open>Settlement and the polling timer\<close>

lemma step_settled: "promise s \<noteq> Pending \<Longrightarrow> promise (step parse s e) = promise s"
  by (cases e)
    (simp_all add: on_readystatechange_def Let_def promise_resolve promise_reject split: option.splits)

lemma run_settled: "promise s \<noteq> Pending \<Longrightarrow> promise (run parse s evs) = promise s"
  by (induction evs rule: rev_induct) (simp_all add: run_snoc step_settled del: step.simps, simp add: run_def)

lemma comet_tick_frame [simp]:
  "cometTimer (finish (comet_tick b s)) = cometTimer s"
  "timer_running (finish (comet_tick b s)) = timer_running s"
  by (simp_all add: comet_tick_def Let_def)

lemma timer_inv_start: "timer_inv (start (ajax d))"
  using poll_interval_ajax [of d]
  by (auto simp add: timer_inv_def start_def split: option.splits)

lemma timer_inv_step: "timer_inv s \<Longrightarrow> timer_inv (step parse s e)"
  by (cases e)
    (auto simp add: timer_inv_def on_readystatechange_def Let_def promise_resolve promise_reject
      split: option.splits if_splits)

lemma timer_inv_run: "timer_inv s \<Longrightarrow> timer_inv (run parse s evs)"
  by (induction evs rule: rev_induct) (simp_all add: run_snoc timer_inv_step del: step.simps, simp add: run_def)

lemma settled_timer_stopped:
  "promise (run parse (start (ajax d)) evs) \<noteq> Pending \<Longrightarrow>
   \<not> timer_running (run parse (start (ajax d)) evs)"
  using timer_inv_run [OF timer_inv_start, of parse d evs] by (simp add: timer_inv_def)

lemma step_done_settles:
  "promise s = Pending \<Longrightarrow> readyState t = 4 \<Longrightarrow>
   (promise (step parse s (ReadyStateChange t)) \<noteq> Pending) =
   (\<not> (success_status (status t) \<and> contentTypeHeader t = Some ''application/json''
        \<and> parse (responseText t) = None))"
  by (auto simp add: on_readystatechange_def Let_def promise_resolve promise_reject success_status_def
      split: option.splits)

text \<open>
  Claim C2, as amended. Once the promise of an invocation is settled its outcome never
  changes, whatever events follow; by then the interval timer is stopped, so that every
  later polling tick leaves the state as it is. When the request has been sent, the
  first terminal lifecycle event settles the promise unless it delivers a status in
  200-299 with content type \<^verbatim>\<open>application/json\<close> and a response text on which
  \<^verbatim>\<open>JSON.parse\<close> raises; in that case the promise is not settled.
\<close>

theorem settles_at_most_once:
  "(promise (run parse (start (ajax d)) evs) \<noteq> Pending \<longrightarrow>
      promise (run parse (start (ajax d)) (evs @ rest)) = promise (run parse (start (ajax d)) evs)
    \<and> \<not> timer_running (run parse (start (ajax d)) (evs @ rest))
    \<and> step parse (run parse (start (ajax d)) (evs @ rest)) (Tick b)
        = run parse (start (ajax d)) (evs @ rest))
   \<and> (thrown (ajax d) = None \<longrightarrow> (\<forall>e\<in>set evs. \<not> is_done e) \<longrightarrow> readyState t = 4 \<longrightarrow>
        (promise (after_completion parse d evs t) \<noteq> Pending) =
        (\<not> (success_status (status t) \<and> contentTypeHeader t = Some ''application/json''
             \<and> parse (responseText t) = None)))"
proof (intro conjI impI)
  assume settled: "promise (run parse (start (ajax d)) evs) \<noteq> Pending"
  show same: "promise (run parse (start (ajax d)) (evs @ rest)) = promise (run parse (start (ajax d)) evs)"
    using settled by (simp add: run_append run_settled)
  then have "promise (run parse (start (ajax d)) (evs @ rest)) \<noteq> Pending"
    using settled by simp
  then show stopped: "\<not> timer_running (run parse (start (ajax d)) (evs @ rest))"
    by (rule settled_timer_stopped)
  then show "step parse (run parse (start (ajax d)) (evs @ rest)) (Tick b)
        = run parse (start (ajax d)) (evs @ rest)"
    by simp
next
  assume "thrown (ajax d) = None" and "\<forall>e\<in>set evs. \<not> is_done e" and fin: "readyState t = 4"
  then have "promise (run parse (start (ajax d)) evs) = Pending"
    by (simp add: pending_before_done)
  from step_done_settles [where parse = parse, OF this fin]
  show "(promise (after_completion parse d evs t) \<noteq> Pending) =
        (\<not> (success_status (status t) \<and> contentTypeHeader t = Some ''application/json''
             \<and> parse (responseText t) = None))"
    by (simp only: after_completion_step)
qed

text \<open>
  Claim C2 as stated asks for exactly one terminal outcome for every invocation. An
  invocation in Comet mode whose transaction completes with status 200, content type
  \<^verbatim>\<open>application/json\<close> and the response text \<^verbatim>\<open>{\<close> has none: the promise is pending
  after the terminal event and after the ticks that follow, and the SyntaxError is
  uncaught.
\<close>

theorem settles_exactly_once_counterexample:
  "thrown (ajax (DObject (no_options\<lparr>url := Some ''/stream'', comet := CometFunction\<rparr>))) = None
   \<and> promise (after_completion (\<lambda>s. None :: unit option)
        (DObject (no_options\<lparr>url := Some ''/stream'', comet := CometFunction\<rparr>)) [Tick False]
        \<lparr>readyState = 4, status = 200, statusText = ''OK'', responseText = ''{'',
          contentTypeHeader = Some ''application/json''\<rparr>) = Pending
   \<and> promise (run (\<lambda>s. None :: unit option) (after_completion (\<lambda>s. None :: unit option)
        (DObject (no_options\<lparr>url := Some ''/stream'', comet := CometFunction\<rparr>)) [Tick False]
        \<lparr>readyState = 4, status = 200, statusText = ''OK'', responseText = ''{'',
          contentTypeHeader = Some ''application/json''\<rparr>) [Tick False, Tick False]) = Pending
   \<and> uncaught (after_completion (\<lambda>s. None :: unit option)
        (DObject (no_options\<lparr>url := Some ''/stream'', comet := CometFunction\<rparr>)) [Tick False]
        \<lparr>readyState = 4, status = 200, statusText = ''OK'', responseText = ''{'',
          contentTypeHeader = Some ''application/json''\<rparr>) = [SyntaxError]"
  by (simp add: ajax_eval loop_eval)

theorem settles_at_most_once_witness:
  "thrown (ajax (DObject (no_options\<lparr>url := Some ''/stream'', comet := CometFunction\<rparr>))) = None
   \<and> \<not> is_done (Tick False)
   \<and> promise (run (\<lambda>s. None :: unit option)
        (start (ajax (DObject (no_options\<lparr>url := Some ''/stream'', comet := CometFunction\<rparr>))))
        [Tick False, ReadyStateChange \<lparr>readyState = 4, status = 500, statusText = ''Server Error'',
           responseText = [], contentTypeHeader = None\<rparr>]) = Rejected (Error ''Server Error'')
   \<and> promise (run (\<lambda>s. None :: unit option)
        (start (ajax (DObject (no_options\<lparr>url := Some ''/stream'', comet := CometFunction\<rparr>))))
        ([Tick False, ReadyStateChange \<lparr>readyState = 4, status = 500, statusText = ''Server Error'',
           responseText = [], contentTypeHeader = None\<rparr>]
         @ [Tick False, ReadyStateChange \<lparr>readyState = 4, status = 200, statusText = ''OK'',
           responseText = [], contentTypeHeader = None\<rparr>])) = Rejected (Error ''Server Error'')
   \<and> \<not> timer_running (run (\<lambda>s. None :: unit option)
        (start (ajax (DObject (no_options\<lparr>url := Some ''/stream'', comet := CometFunction\<rparr>))))
        ([Tick False, ReadyStateChange \<lparr>readyState = 4, status = 500, statusText = ''Server Error'',
           responseText = [], contentTypeHeader = None\<rparr>]
         @ [Tick False, ReadyStateChange \<lparr>readyState = 4, status = 200, statusText = ''OK'',
           responseText = [], contentTypeHeader = None\<rparr>]))
   \<and> promise (after_completion (\<lambda>s. None :: unit option)
        (DObject (no_options\<lparr>url := Some ''/stream'', comet := CometFunction\<rparr>)) [Tick False]
        \<lparr>readyState = 4, status = 500, statusText = ''Server Error'',
           responseText = [], contentTypeHeader = None\<rparr>) \<noteq> Pending"
proof -
  let ?d = "DObject (no_options\<lparr>url := Some ''/stream'', comet := CometFunction\<rparr>)"
  let ?t = "\<lparr>readyState = 4, status = 500, statusText = ''Server Error'',
           responseText = [], contentTypeHeader = None\<rparr>"
  let ?evs = "[Tick False, ReadyStateChange ?t]"
  let ?rest = "[Tick False, ReadyStateChange \<lparr>readyState = 4, status = 200, statusText = ''OK'',
           responseText = [], contentTypeHeader = None\<rparr>]"
  have h1: "thrown (ajax ?d) = None" by (simp add: ajax_eval)
  have h2: "promise (run (\<lambda>s. None :: unit option) (start (ajax ?d)) ?evs)
      = Rejected (Error ''Server Error'')"
    by (simp add: ajax_eval loop_eval)
  have h3: "\<not> success_status (status ?t)" by (simp add: success_status_def)
  from settles_at_most_once [where parse = "\<lambda>s. None :: unit option" and d = ?d and evs = ?evs
      and rest = ?rest and b = False]
    settles_at_most_once [where parse = "\<lambda>s. None :: unit option" and d = ?d
      and evs = "[Tick False]" and t = ?t]
    h1 h2 h3
  show ?thesis by simp
qed

subsection \<open>Comet mode: the polling tick\<close>

text \<open>
  The pieces of the split hold no line break, there is always at least one piece, and
  a text without a line break is one piece, so that nothing is selected from it.
\<close>

lemma split_from_length: "1 \<le> length (split_from cur s)" "1 \<le> length (skip_run s)"
  by (induction cur s and s rule: split_from_skip_run.induct) simp_all

lemma split_from_plain:
  "\<forall>c\<in>set s. \<not> is_newline c \<Longrightarrow> split_from cur s = [cur @ s]"
  by (induction s arbitrary: cur) simp_all

lemma split_newlines_no_break:
  "\<forall>c\<in>set s. \<not> is_newline c \<Longrightarrow> second_to_last (split_newlines s) = JUndefined"
  by (simp add: split_newlines_def split_from_plain second_to_last_def)

lemma split_from_pieces:
  "(\<forall>c\<in>set cur. \<not> is_newline c) \<longrightarrow> (\<forall>p\<in>set (split_from cur s). \<forall>c\<in>set p. \<not> is_newline c)"
  "\<forall>p\<in>set (skip_run s). \<forall>c\<in>set p. \<not> is_newline c"
proof (induction cur s and s rule: split_from_skip_run.induct)
  case (1 cur)
  then show ?case by simp
next
  case (2 cur c cs)
  then show ?case by (cases "is_newline c") simp_all
next
  case 3
  then show ?case by simp
next
  case (4 c cs)
  then show ?case by (cases "is_newline c") simp_all
qed

lemma split_newlines_pieces:
  "p \<in> set (split_newlines s) \<Longrightarrow> c \<in> set p \<Longrightarrow> \<not> is_newline c"
  using split_from_pieces(1) [of "[]" s] by (simp add: split_newlines_def)

lemma step_no_tick:
  "\<not> is_tick e \<Longrightarrow>
   lastLine (step parse s e) = lastLine s \<and> comet_calls (step parse s e) = comet_calls s
   \<and> cometLength (step parse s e) = cometLength s"
  by (cases e) (simp_all add: on_readystatechange_def Let_def split: option.splits)

lemma run_no_tick:
  "\<forall>e\<in>set evs. \<not> is_tick e \<Longrightarrow>
   lastLine (run parse s evs) = lastLine s \<and> comet_calls (run parse s evs) = comet_calls s
   \<and> cometLength (run parse s evs) = cometLength s"
proof (induction evs rule: rev_induct)
  case Nil
  then show ?case by (simp add: run_def)
next
  case (snoc e evs)
  then show ?case
    using step_no_tick [of e parse "run parse s evs"] by (simp add: run_snoc del: step.simps)
qed

lemma truthy_second_to_last:
  "truthy (second_to_last ls) = (\<exists>x. x \<noteq> [] \<and> second_to_last ls = JStr x)"
  by (auto simp add: second_to_last_def)

lemma tick_effect:
  "timer_running s \<Longrightarrow>
   cometLength (step parse s (Tick b)) = length (responseText (txn (xhr s)))
   \<and> comet_calls (step parse s (Tick b))
       = (if truthy (selected_line s) \<and> selected_line s \<noteq> lastLine s
          then comet_calls s @ [selected_line s] else comet_calls s)
   \<and> lastLine (step parse s (Tick b))
       = (if b \<and> truthy (selected_line s) \<and> selected_line s \<noteq> lastLine s
          then lastLine s else selected_line s)"
  by (simp add: comet_tick_def selected_line_def Let_def)

lemma tick_calls_cases:
  "comet_calls (step parse s (Tick b)) = comet_calls s
   \<or> (comet_calls (step parse s (Tick b)) = comet_calls s @ [selected_line s]
      \<and> selected_line s \<noteq> lastLine s)"
  by (simp add: comet_tick_def selected_line_def Let_def)

text \<open>
  Claim C1, as amended. On every polling tick (the interval timer is active) the reader
  reads the whole response text, stores its length in \<^verbatim>\<open>cometLength\<close>, splits the text
  at the runs of line feeds and carriage returns and selects the second-to-last piece.
  It calls the callback with that piece exactly when the piece is a non-empty string
  and differs from \<^verbatim>\<open>lastLine\<close>; \<^verbatim>\<open>lastLine\<close> is \<^verbatim>\<open>null\<close> at first and then the piece
  selected on the previous tick, except that a tick whose callback raised leaves it as
  it was. Hence, when a tick has called the callback with a line and the callback has
  returned, the next tick does not call it with the same line, whatever lifecycle
  events come between the two.
\<close>

theorem comet_tick_delivery:
  assumes active: "timer_running s"
  shows "cometLength (step parse s (Tick b)) = length (responseText (txn (xhr s)))
       \<and> (selected_line s = second_to_last (split_newlines (responseText (txn (xhr s))))
          \<and> truthy (selected_line s) = (\<exists>x. x \<noteq> [] \<and> selected_line s = JStr x))
       \<and> comet_calls (step parse s (Tick b))
           = (if truthy (selected_line s) \<and> selected_line s \<noteq> lastLine s
              then comet_calls s @ [selected_line s] else comet_calls s)
       \<and> lastLine (step parse s (Tick b))
           = (if b \<and> truthy (selected_line s) \<and> selected_line s \<noteq> lastLine s
              then lastLine s else selected_line s)
       \<and> ((\<forall>e\<in>set rs. \<not> is_tick e) \<longrightarrow>
            comet_calls (step parse s (Tick False)) = comet_calls s @ [l] \<longrightarrow>
            comet_calls (step parse (run parse (step parse s (Tick False)) rs) (Tick b'))
              \<noteq> comet_calls (run parse (step parse s (Tick False)) rs) @ [l])"
proof -
  note eff = tick_effect [OF active, of parse]
  have consecutive:
    "comet_calls (step parse (run parse (step parse s (Tick False)) rs) (Tick b'))
       \<noteq> comet_calls (run parse (step parse s (Tick False)) rs) @ [l]"
    if quiet: "\<forall>e\<in>set rs. \<not> is_tick e"
      and delivered: "comet_calls (step parse s (Tick False)) = comet_calls s @ [l]"
  proof -
    let ?s1 = "step parse s (Tick False)"
    let ?s2 = "run parse ?s1 rs"
    from eff [of False] delivered
    have l: "l = selected_line s" and marker: "lastLine ?s1 = selected_line s"
      by (auto split: if_splits)
    from run_no_tick [OF quiet, of parse ?s1]
    have "lastLine ?s2 = l"
      using l marker by simp
    with tick_calls_cases [of parse ?s2 b']
    show ?thesis by auto
  qed
  have nonempty: "truthy (selected_line s) = (\<exists>x. x \<noteq> [] \<and> selected_line s = JStr x)"
    by (simp add: selected_line_def truthy_second_to_last)
  have sel: "selected_line s = second_to_last (split_newlines (responseText (txn (xhr s))))"
    by (simp add: selected_line_def)
  have next_tick: "(\<forall>e\<in>set rs. \<not> is_tick e) \<longrightarrow>
      comet_calls (step parse s (Tick False)) = comet_calls s @ [l] \<longrightarrow>
      comet_calls (step parse (run parse (step parse s (Tick False)) rs) (Tick b'))
        \<noteq> comet_calls (run parse (step parse s (Tick False)) rs) @ [l]"
    using consecutive by blast
  show ?thesis
    using eff [of b] nonempty sel next_tick by blast
qed

text \<open>
  Claim C1 as stated has the callback called whenever the selected piece exists and
  differs from the line delivered before. With the response text \<^verbatim>\<open>"\nab"\<close> the
  second-to-last piece exists, it is the empty string, and \<^verbatim>\<open>lastLine\<close> is \<^verbatim>\<open>null\<close>,
  yet the tick calls nothing: \<^verbatim>\<open>if (line && ...)\<close> takes the empty string for false.
  And with the response text \<^verbatim>\<open>"a\nb"\<close> and a callback that raises on the first tick,
  two consecutive ticks call it with the same line.
\<close>

theorem comet_tick_delivery_counterexample:
  "timer_running (run (\<lambda>s. None :: unit option)
       (start (ajax (DObject (no_options\<lparr>url := Some ''/stream'', comet := CometFunction\<rparr>))))
       [ReadyStateChange \<lparr>readyState = 3, status = 200, statusText = ''OK'',
          responseText = [CHR 0x0A, CHR ''a'', CHR ''b''], contentTypeHeader = None\<rparr>])
   \<and> second_to_last (split_newlines [CHR 0x0A, CHR ''a'', CHR ''b'']) = JStr []
   \<and> lastLine (run (\<lambda>s. None :: unit option)
       (start (ajax (DObject (no_options\<lparr>url := Some ''/stream'', comet := CometFunction\<rparr>))))
       [ReadyStateChange \<lparr>readyState = 3, status = 200, statusText = ''OK'',
          responseText = [CHR 0x0A, CHR ''a'', CHR ''b''], contentTypeHeader = None\<rparr>]) = JNull
   \<and> comet_calls (run (\<lambda>s. None :: unit option)
       (start (ajax (DObject (no_options\<lparr>url := Some ''/stream'', comet := CometFunction\<rparr>))))
       [ReadyStateChange \<lparr>readyState = 3, status = 200, statusText = ''OK'',
          responseText = [CHR 0x0A, CHR ''a'', CHR ''b''], contentTypeHeader = None\<rparr>,
        Tick False]) = []
   \<and> comet_calls (run (\<lambda>s. None :: unit option)
       (start (ajax (DObject (no_options\<lparr>url := Some ''/stream'', comet := CometFunction\<rparr>))))
       [ReadyStateChange \<lparr>readyState = 3, status = 200, statusText = ''OK'',
          responseText = [CHR ''a'', CHR 0x0A, CHR ''b''], contentTypeHeader = None\<rparr>,
        Tick True, Tick False]) = [JStr ''a'', JStr ''a'']"
  by (simp add: ajax_eval loop_eval)

theorem comet_tick_delivery_witness:
  "timer_running (run (\<lambda>s. None :: unit option)
       (start (ajax (DObject (no_options\<lparr>url := Some ''/stream'', comet := CometFunction\<rparr>))))
       [ReadyStateChange \<lparr>readyState = 3, status = 200, statusText = ''OK'',
          responseText = [CHR ''a'', CHR 0x0D, CHR 0x0A, CHR ''b''], contentTypeHeader = None\<rparr>])
   \<and> \<not> is_tick (ReadyStateChange \<lparr>readyState = 3, status = 200, statusText = ''OK'',
          responseText = [CHR ''a'', CHR 0x0D, CHR 0x0A, CHR ''b''], contentTypeHeader = None\<rparr>)
   \<and> cometLength (run (\<lambda>s. None :: unit option)
       (start (ajax (DObject (no_options\<lparr>url := Some ''/stream'', comet := CometFunction\<rparr>))))
       [ReadyStateChange \<lparr>readyState = 3, status = 200, statusText = ''OK'',
          responseText = [CHR ''a'', CHR 0x0D, CHR 0x0A, CHR ''b''], contentTypeHeader = None\<rparr>,
        Tick False]) = 4
   \<and> comet_calls (run (\<lambda>s. None :: unit option)
       (start (ajax (DObject (no_options\<lparr>url := Some ''/stream'', comet := CometFunction\<rparr>))))
       [ReadyStateChange \<lparr>readyState = 3, status = 200, statusText = ''OK'',
          responseText = [CHR ''a'', CHR 0x0D, CHR 0x0A, CHR ''b''], contentTypeHeader = None\<rparr>,
        Tick False]) = [JStr ''a'']
   \<and> comet_calls (run (\<lambda>s. None :: unit option)
       (start (ajax (DObject (no_options\<lparr>url := Some ''/stream'', comet := CometFunction\<rparr>))))
       [ReadyStateChange \<lparr>readyState = 3, status = 200, statusText = ''OK'',
          responseText = [CHR ''a'', CHR 0x0D, CHR 0x0A, CHR ''b''], contentTypeHeader = None\<rparr>,
        Tick False,
        ReadyStateChange \<lparr>readyState = 3, status = 200, statusText = ''OK'',
          responseText = [CHR ''a'', CHR 0x0D, CHR 0x0A, CHR ''b''], contentTypeHeader = None\<rparr>,
        Tick False]) \<noteq> [JStr ''a'', JStr ''a'']"
proof -
  let ?parse = "\<lambda>s. None :: unit option"
  let ?e = "ReadyStateChange \<lparr>readyState = 3, status = 200, statusText = ''OK'',
          responseText = [CHR ''a'', CHR 0x0D, CHR 0x0A, CHR ''b''], contentTypeHeader = None\<rparr>"
  let ?s = "run ?parse
       (start (ajax (DObject (no_options\<lparr>url := Some ''/stream'', comet := CometFunction\<rparr>)))) [?e]"
  have h1: "timer_running ?s"
    by (simp add: ajax_eval loop_eval)
  have h2: "\<forall>e\<in>set [?e]. \<not> is_tick e" by simp
  have sel: "selected_line ?s = JStr ''a''" "lastLine ?s = JNull" "comet_calls ?s = []"
    "length (responseText (txn (xhr ?s))) = 4"
    by (simp_all add: selected_line_def ajax_eval loop_eval)
  note t = comet_tick_delivery [OF h1, of ?parse False "[?e]" "JStr ''a''" False]
  have unfold: "run ?parse (start (ajax (DObject (no_options\<lparr>url := Some ''/stream'', comet := CometFunction\<rparr>))))
      [?e, Tick False] = step ?parse ?s (Tick False)"
    "run ?parse (start (ajax (DObject (no_options\<lparr>url := Some ''/stream'', comet := CometFunction\<rparr>))))
      [?e, Tick False, ?e, Tick False]
      = step ?parse (run ?parse (step ?parse ?s (Tick False)) [?e]) (Tick False)"
    by (simp_all add: run_def del: step.simps)
  note t1 = t [THEN conjunct1]
  note t3 = t [THEN conjunct2, THEN conjunct2, THEN conjunct1]
  note t5 = t [THEN conjunct2, THEN conjunct2, THEN conjunct2, THEN conjunct2]
  have len1: "cometLength (step ?parse ?s (Tick False)) = 4"
    using t1 sel(4) by (simp only:)
  have d: "comet_calls (step ?parse ?s (Tick False)) = comet_calls ?s @ [JStr ''a'']"
    using t3 by (simp only: sel) simp
  have calls1: "comet_calls (step ?parse ?s (Tick False)) = [JStr ''a'']"
    using d by (simp only: sel) simp
  have quiet: "comet_calls (run ?parse (step ?parse ?s (Tick False)) [?e]) = [JStr ''a'']"
    using run_no_tick [OF h2, of ?parse "step ?parse ?s (Tick False)"] calls1 by (simp only:)
  note c5 = mp [OF mp [OF t5 h2] d]
  have calls2: "comet_calls (step ?parse (run ?parse (step ?parse ?s (Tick False)) [?e]) (Tick False))
      \<noteq> [JStr ''a'', JStr ''a'']"
    using c5 by (simp only: quiet) simp
  show ?thesis
    using h1 calls1 len1 calls2 by (simp only: unfold is_tick.simps) simp
qed

subsection \<open>The request body\<close>

lemma join_with_nonempty: "x \<noteq> [] \<Longrightarrow> join_with sep (x # xs) \<noteq> []"
  by (cases xs) simp_all

lemma urlencode_empty: "urlencode kvs = [] \<longleftrightarrow> kvs = []"
proof (cases kvs)
  case Nil
  then show ?thesis by (simp add: urlencode_def)
next
  case (Cons p ps)
  obtain k v where p: "p = (k, v)" by (cases p)
  have "encodeURIComponent k @ ''='' @ encodeURIComponent (ToString v) \<noteq> []" by simp
  then show ?thesis
    using Cons p join_with_nonempty [of "encodeURIComponent k @ ''='' @ encodeURIComponent (ToString v)"]
    by (simp add: urlencode_def)
qed

lemma JSON_stringify_object:
  "typeof_object v \<Longrightarrow> \<exists>js. JSON_stringify v = Some js \<and> js \<noteq> []"
  by (cases v) simp_all

lemma Object_entries_plain: "plain_object v \<Longrightarrow> \<exists>kvs. Object_entries v = Some kvs"
  by (cases v) simp_all

lemma plain_object_typeof: "plain_object v \<Longrightarrow> typeof_object v \<and> \<not> instanceof_FormData v"
  by (cases v) simp_all

lemma serialize_json:
  "typeof_object (data opts) \<Longrightarrow> active_content_type opts = Some ''application/json'' \<Longrightarrow>
   JSON_stringify (data opts) = Some js \<Longrightarrow> serialize_data opts = Inr (opts\<lparr>data := JStr js\<rparr>)"
  by (simp add: serialize_data_def)

lemma serialize_urlencoded:
  "plain_object (data opts) \<Longrightarrow> active_content_type opts \<noteq> Some ''application/json'' \<Longrightarrow>
   Object_entries (data opts) = Some kvs \<Longrightarrow>
   serialize_data opts = Inr (opts\<lparr>data := JStr (urlencode kvs)\<rparr>)"
  using plain_object_typeof [of "data opts"] by (simp add: serialize_data_def)

lemma serialize_unchanged:
  "\<not> typeof_object (data opts) \<or>
   (instanceof_FormData (data opts) \<and> active_content_type opts \<noteq> Some ''application/json'') \<Longrightarrow>
   serialize_data opts = Inr opts"
  by (auto simp add: serialize_data_def)

lemma ajax_serialized:
  "serialize_data (assemble_headers (normalize_options d)) = Inr o2 \<Longrightarrow>
   options_after (ajax d) = o2 \<and> send_call (ajax d) = Some (js_or (data o2) JNull)
   \<and> thrown (ajax d) = None
   \<and> options_after (ajax_v1 d) = o2 \<and> send_call (ajax_v1 d) = Some (js_or (data o2) JNull)"
  by (simp add: ajax_def ajax_executor_def ajax_v1_def ajax_v1_executor_def Let_def)

text \<open>
  Claim C6, as amended. Let the request body be an object or an array (not \<^verbatim>\<open>null\<close>,
  not FormData). The executor does not raise. If the \<^verbatim>\<open>Content-Type\<close> entry of the
  headers, after the \<^verbatim>\<open>contentType\<close> shorthand has been applied, is exactly
  \<^verbatim>\<open>application/json\<close>, the payload passed to \<^verbatim>\<open>send\<close> is \<^verbatim>\<open>JSON.stringify\<close> of the
  body. Otherwise, when the body has at least one own enumerable entry, the payload is
  the string of its entries in enumeration order, \<^verbatim>\<open>encodeURIComponent(key)\<close>, \<^verbatim>\<open>=\<close>,
  \<^verbatim>\<open>encodeURIComponent(value)\<close>, joined with \<^verbatim>\<open>&\<close>; when it has none, the payload is
  \<^verbatim>\<open>null\<close>.
\<close>

theorem object_body_payload:
  assumes body: "plain_object (data (normalize_options d))"
  shows "(active_content_type (assemble_headers (normalize_options d)) = Some ''application/json'' \<longrightarrow>
           (\<exists>js. JSON_stringify (data (normalize_options d)) = Some js
                \<and> send_call (ajax d) = Some (JStr js)))
       \<and> (active_content_type (assemble_headers (normalize_options d)) \<noteq> Some ''application/json'' \<longrightarrow>
           (\<exists>kvs. Object_entries (data (normalize_options d)) = Some kvs
                \<and> send_call (ajax d) =
                    Some (if kvs = [] then JNull
                          else JStr (join_with ''&''
                                 (map (\<lambda>(k, v). encodeURIComponent k @ ''='' @ encodeURIComponent (ToString v))
                                    kvs)))))
       \<and> thrown (ajax d) = None"
proof -
  let ?o1 = "assemble_headers (normalize_options d)"
  have body1: "plain_object (data ?o1)" using body by simp
  then have obj: "typeof_object (data ?o1)" by (simp add: plain_object_typeof)
  obtain js where js: "JSON_stringify (data ?o1) = Some js" "js \<noteq> []"
    using JSON_stringify_object [OF obj] by blast
  obtain kvs where kvs: "Object_entries (data ?o1) = Some kvs"
    using Object_entries_plain [OF body1] by blast
  show ?thesis
  proof (cases "active_content_type ?o1 = Some ''application/json''")
    case True
    from ajax_serialized [OF serialize_json [OF obj True js(1)]] js True
    show ?thesis by (simp add: js_or_def)
  next
    case False
    from ajax_serialized [OF serialize_urlencoded [OF body1 False kvs]] kvs False
    show ?thesis
      using urlencode_empty [of kvs] by (simp add: js_or_def) (simp add: urlencode_def)
  qed
qed

text \<open>
  Claim C6 as stated gives the joined pairs as the payload for every such body. For
  the empty object and no JSON header the joined pairs are the empty string, and
  \<^verbatim>\<open>options.data || null\<close> passes \<^verbatim>\<open>null\<close> to \<^verbatim>\<open>send\<close>.
\<close>

theorem object_body_payload_counterexample:
  "plain_object (data (normalize_options (DObject (no_options\<lparr>url := Some ''/save'', data := JObj []\<rparr>))))
   \<and> active_content_type (assemble_headers
        (normalize_options (DObject (no_options\<lparr>url := Some ''/save'', data := JObj []\<rparr>)))) = None
   \<and> Object_entries (JObj []) = Some []
   \<and> join_with ''&''
        (map (\<lambda>(k, v). encodeURIComponent k @ ''='' @ encodeURIComponent (ToString v)) []) = []
   \<and> send_call (ajax (DObject (no_options\<lparr>url := Some ''/save'', data := JObj []\<rparr>))) = Some JNull"
  by (simp add: ajax_eval urlencode_def)


text \<open>The definitions that evaluate the codecs on concrete inputs.\<close>

lemmas codec_eval =
  urlencode_def encodeURIComponent_def encode_unit_def uri_unreserved_def percent_def
  hex_upper_def hex_lower_def quote_json_def quote_unit_def Number_toString_def digits.simps

theorem object_body_payload_witness:
  \<open>plain_object (JObj [(''foo'', JStr ''a b''), (''bar'', JNum 2)])
   \<and> send_call (ajax (DObject (no_options\<lparr>url := Some ''/save'',
          data := JObj [(''foo'', JStr ''a b''), (''bar'', JNum 2)]\<rparr>)))
       = Some (JStr ''foo=a%20b&bar=2'')
   \<and> send_call (ajax (DObject (no_options\<lparr>url := Some ''/save'',
          data := JObj [(''foo'', JStr ''a b''), (''bar'', JNum 2)],
          contentType := Some ''application/json''\<rparr>)))
       = Some (JStr ''{"foo":"a b","bar":2}'')\<close>
proof -
  let ?body = "JObj [(''foo'', JStr ''a b''), (''bar'', JNum 2)]"
  let ?d1 = "DObject (no_options\<lparr>url := Some ''/save'', data := ?body\<rparr>)"
  let ?d2 = "DObject (no_options\<lparr>url := Some ''/save'', data := ?body,
               contentType := Some ''application/json''\<rparr>)"
  have b1: "plain_object (data (normalize_options ?d1))"
    and b2: "plain_object (data (normalize_options ?d2))"
    by (simp_all add: normalize_options_def no_options_def)
  have a1: "active_content_type (assemble_headers (normalize_options ?d1)) \<noteq> Some ''application/json''"
    and a2: "active_content_type (assemble_headers (normalize_options ?d2)) = Some ''application/json''"
    by (simp_all add: ajax_eval)
  have e1: "Object_entries (data (normalize_options ?d1)) = Some [(''foo'', JStr ''a b''), (''bar'', JNum 2)]"
    by (simp add: normalize_options_def no_options_def)
  have e2: \<open>JSON_stringify (data (normalize_options ?d2)) = Some ''{"foo":"a b","bar":2}''\<close>
    by (simp add: normalize_options_def no_options_def codec_eval)
  have enc: "join_with ''&''
      (map (\<lambda>(k, v). encodeURIComponent k @ ''='' @ encodeURIComponent (ToString v))
         [(''foo'', JStr ''a b''), (''bar'', JNum 2)]) = ''foo=a%20b&bar=2''"
    by (simp add: codec_eval)
  from object_body_payload [OF b1] a1 e1 enc
  have p1: "send_call (ajax ?d1) = Some (JStr ''foo=a%20b&bar=2'')"
    by auto
  from object_body_payload [OF b2] a2 e2
  have p2: \<open>send_call (ajax ?d2) = Some (JStr ''{"foo":"a b","bar":2}'')\<close>
    by auto
  show ?thesis
    using p1 p2 by simp
qed

text \<open>
  Claim C7, as amended. A non-empty string body is passed to \<^verbatim>\<open>send\<close> unchanged; so
  is a FormData body while the \<^verbatim>\<open>Content-Type\<close> entry of the headers is not exactly
  \<^verbatim>\<open>application/json\<close>. Under that header a FormData body is sent as its JSON
  serialization \<^verbatim>\<open>{}\<close>. An absent body and the empty string send \<^verbatim>\<open>null\<close>.
\<close>

theorem passthrough_body_payload:
  "(data (normalize_options d) = JStr s \<longrightarrow>
      send_call (ajax d) = Some (if s = [] then JNull else JStr s))
   \<and> (data (normalize_options d) = JFormData fd \<longrightarrow>
      send_call (ajax d) =
        Some (if active_content_type (assemble_headers (normalize_options d)) = Some ''application/json''
              then JStr ''{}'' else JFormData fd))
   \<and> (data (normalize_options d) = JUndefined \<longrightarrow> send_call (ajax d) = Some JNull)"
proof (intro conjI impI)
  let ?o1 = "assemble_headers (normalize_options d)"
  {
    assume "data (normalize_options d) = JStr s"
    then have d1: "data ?o1 = JStr s" by simp
    then have "serialize_data ?o1 = Inr ?o1" by (simp add: serialize_unchanged)
    from ajax_serialized [OF this] d1
    show "send_call (ajax d) = Some (if s = [] then JNull else JStr s)"
      by (simp add: js_or_def)
  next
    assume "data (normalize_options d) = JUndefined"
    then have d1: "data ?o1 = JUndefined" by simp
    then have "serialize_data ?o1 = Inr ?o1" by (simp add: serialize_unchanged)
    from ajax_serialized [OF this] d1
    show "send_call (ajax d) = Some JNull"
      by (simp add: js_or_def)
  next
    assume "data (normalize_options d) = JFormData fd"
    then have d1: "data ?o1 = JFormData fd" by simp
    show "send_call (ajax d) =
        Some (if active_content_type ?o1 = Some ''application/json'' then JStr ''{}'' else JFormData fd)"
    proof (cases "active_content_type ?o1 = Some ''application/json''")
      case True
      have "serialize_data ?o1 = Inr (?o1\<lparr>data := JStr ''{}''\<rparr>)"
        using d1 True by (simp add: serialize_json)
      from ajax_serialized [OF this] True
      show ?thesis by (simp add: js_or_def)
    next
      case False
      have "serialize_data ?o1 = Inr ?o1"
        using d1 False by (simp add: serialize_unchanged)
      from ajax_serialized [OF this] d1 False
      show ?thesis by (simp add: js_or_def)
    qed
  }
qed

text \<open>
  Claim C7 as stated passes every string and every FormData body through unchanged.
  A FormData body under the shorthand \<^verbatim>\<open>contentType: 'application/json'\<close> is
  replaced by the string \<^verbatim>\<open>{}\<close>, and the empty string body is sent as \<^verbatim>\<open>null\<close>.
\<close>

theorem passthrough_body_payload_counterexample:
  "send_call (ajax (DObject (no_options\<lparr>url := Some ''/upload'',
       data := JFormData [(''file'', ''contents'')], contentType := Some ''application/json''\<rparr>)))
     = Some (JStr ''{}'')
   \<and> send_call (ajax (DObject (no_options\<lparr>url := Some ''/upload'', data := JStr []\<rparr>)))
     = Some JNull"
  by (simp add: ajax_eval)

theorem passthrough_body_payload_witness:
  "send_call (ajax (DObject (no_options\<lparr>url := Some ''/upload'', data := JStr ''a=1''\<rparr>)))
     = Some (JStr ''a=1'')
   \<and> send_call (ajax (DObject (no_options\<lparr>url := Some ''/upload'',
         data := JFormData [(''file'', ''contents'')]\<rparr>)))
     = Some (JFormData [(''file'', ''contents'')])
   \<and> send_call (ajax (DString ''/page'')) = Some JNull"
proof -
  let ?d1 = "DObject (no_options\<lparr>url := Some ''/upload'', data := JStr ''a=1''\<rparr>)"
  let ?d2 = "DObject (no_options\<lparr>url := Some ''/upload'', data := JFormData [(''file'', ''contents'')]\<rparr>)"
  have a2: "active_content_type (assemble_headers (normalize_options ?d2)) = None"
    by (simp add: ajax_eval)
  from passthrough_body_payload [of ?d1 "''a=1''"]
    passthrough_body_payload [of ?d2 _ "[(''file'', ''contents'')]"]
    passthrough_body_payload [of "DString ''/page''"] a2
  show ?thesis
    by (simp add: normalize_options_def no_options_def)
qed


subsection \<open>What the call leaves in the caller's descriptor\<close>

lemma map_of_set_prop: "map_of (set_prop k v ps) k = Some v"
  by (induction ps) auto

lemma assemble_headers_headers:
  "headers (assemble_headers opts) =
     Some (case contentType opts of
             None \<Rightarrow> headers_of opts
           | Some c \<Rightarrow> if c \<noteq> [] then set_prop ''Content-Type'' c (headers_of opts)
                       else headers_of opts)"
  by (simp add: assemble_headers_def headers_of_def Let_def split: option.splits)

lemma options_after_frame:
  "headers (options_after (ajax d)) = headers (assemble_headers (normalize_options d))
   \<and> url (options_after (ajax d)) = url (normalize_options d)
   \<and> http_method (options_after (ajax d)) = http_method (normalize_options d)
   \<and> contentType (options_after (ajax d)) = contentType (normalize_options d)
   \<and> async (options_after (ajax d)) = async (normalize_options d)
   \<and> user (options_after (ajax d)) = user (normalize_options d)
   \<and> password (options_after (ajax d)) = password (normalize_options d)
   \<and> comet (options_after (ajax d)) = comet (normalize_options d)
   \<and> cometPollRate (options_after (ajax d)) = cometPollRate (normalize_options d)"
proof (cases "serialize_data (assemble_headers (normalize_options d))")
  case (Inl f)
  then show ?thesis by (simp add: ajax_def ajax_executor_def Let_def)
next
  case (Inr o2)
  then show ?thesis
    using serialize_data_frame [OF Inr] by (simp add: ajax_def ajax_executor_def Let_def)
qed

lemma options_after_v1: "options_after (ajax_v1 d) = options_after (ajax d)"
  by (simp add: ajax_def ajax_executor_def ajax_v1_def ajax_v1_executor_def Let_def split: sum.splits)

text \<open>
  Claim C10. After a call with a structured descriptor the caller's options object is
  the one the executor has written to, in version 1.1 and in version 1.0 alike: when no
  headers were supplied (and no shorthand given) its \<^verbatim>\<open>headers\<close> is a new empty
  object; when the \<^verbatim>\<open>contentType\<close> shorthand is given (a non-empty string),
  \<^verbatim>\<open>headers['Content-Type']\<close> holds it, in the place of an earlier entry or as a new
  last entry; and when the body is serialized, its \<^verbatim>\<open>data\<close> is the serialized string:
  the JSON text under the JSON header, the URL-encoded pairs for an object or array
  otherwise. Supplied headers without a shorthand, and a body that is not serialized,
  are left as they are; so are the other fields, and a string descriptor is untouched.
\<close>

theorem descriptor_mutated_in_place:
  "caller_descriptor (DObject opts) (ajax (DObject opts)) = DObject (options_after (ajax (DObject opts)))
   \<and> (headers opts = None \<longrightarrow> or_null (contentType opts) = None \<longrightarrow>
        headers (options_after (ajax (DObject opts))) = Some [])
   \<and> (contentType opts = Some c \<longrightarrow> c \<noteq> [] \<longrightarrow>
        headers (options_after (ajax (DObject opts)))
          = Some (set_prop ''Content-Type'' c (headers_of opts))
      \<and> active_content_type (options_after (ajax (DObject opts))) = Some c)
   \<and> (typeof_object (data opts) \<longrightarrow>
        active_content_type (options_after (ajax (DObject opts))) = Some ''application/json'' \<longrightarrow>
        (\<exists>js. JSON_stringify (data opts) = Some js
             \<and> data (options_after (ajax (DObject opts))) = JStr js))
   \<and> (plain_object (data opts) \<longrightarrow>
        active_content_type (options_after (ajax (DObject opts))) \<noteq> Some ''application/json'' \<longrightarrow>
        (\<exists>kvs. Object_entries (data opts) = Some kvs
             \<and> data (options_after (ajax (DObject opts))) = JStr (urlencode kvs)))
   \<and> (headers opts = Some hs \<longrightarrow> or_null (contentType opts) = None \<longrightarrow>
        headers (options_after (ajax (DObject opts))) = Some hs)
   \<and> (\<not> typeof_object (data opts) \<longrightarrow> data (options_after (ajax (DObject opts))) = data opts)
   \<and> (\<not> plain_object (data opts) \<longrightarrow>
        active_content_type (options_after (ajax (DObject opts))) \<noteq> Some ''application/json'' \<longrightarrow>
        data (options_after (ajax (DObject opts))) = data opts)
   \<and> options_after (ajax_v1 (DObject opts)) = options_after (ajax (DObject opts))
   \<and> url (options_after (ajax (DObject opts))) = url opts
   \<and> http_method (options_after (ajax (DObject opts))) = http_method opts
   \<and> contentType (options_after (ajax (DObject opts))) = contentType opts
   \<and> caller_descriptor (DString u) (ajax (DString u)) = DString u"
proof -
  let ?d = "DObject opts"
  let ?o1 = "assemble_headers opts"
  let ?after = "options_after (ajax ?d)"
  have n: "normalize_options ?d = opts" by (simp add: normalize_options_def)
  note frame = options_after_frame [of ?d, unfolded n]
  have hdr: "headers ?after = headers ?o1" using frame by simp
  then have act: "active_content_type ?after = active_content_type ?o1"
    by (simp add: active_content_type_def headers_of_def)
  have fresh: "headers ?after = Some []"
    if "headers opts = None" and "or_null (contentType opts) = None"
    using that hdr
    by (simp add: assemble_headers_headers headers_of_def or_null_def split: option.splits if_splits)
  have shorthand: "headers ?after = Some (set_prop ''Content-Type'' c (headers_of opts))
      \<and> active_content_type ?after = Some c"
    if "contentType opts = Some c" and "c \<noteq> []"
    using that hdr
    by (simp add: assemble_headers_headers active_content_type_def headers_of_def map_of_set_prop)
  have json: "\<exists>js. JSON_stringify (data opts) = Some js \<and> data ?after = JStr js"
    if obj: "typeof_object (data opts)" and a: "active_content_type ?after = Some ''application/json''"
  proof -
    have obj1: "typeof_object (data ?o1)" using obj by simp
    obtain js where js: "JSON_stringify (data ?o1) = Some js"
      using JSON_stringify_object [OF obj1] by blast
    from ajax_serialized [of ?d, unfolded n, OF serialize_json [OF obj1 a [unfolded act] js]] js
    show ?thesis by simp
  qed
  have urlenc: "\<exists>kvs. Object_entries (data opts) = Some kvs \<and> data ?after = JStr (urlencode kvs)"
    if body: "plain_object (data opts)" and a: "active_content_type ?after \<noteq> Some ''application/json''"
  proof -
    have body1: "plain_object (data ?o1)" using body by simp
    obtain kvs where kvs: "Object_entries (data ?o1) = Some kvs"
      using Object_entries_plain [OF body1] by blast
    from ajax_serialized [of ?d, unfolded n, OF serialize_urlencoded [OF body1 a [unfolded act] kvs]] kvs
    show ?thesis by simp
  qed
  have kept: "headers ?after = Some hs"
    if "headers opts = Some hs" and "or_null (contentType opts) = None"
    using that hdr
    by (simp add: assemble_headers_headers headers_of_def or_null_def split: option.splits if_splits)
  have same_data: "data ?after = data opts"
    if "\<not> typeof_object (data opts)
        \<or> (\<not> plain_object (data opts) \<and> active_content_type ?after \<noteq> Some ''application/json'')"
  proof (cases "serialize_data ?o1")
    case (Inl f)
    then show ?thesis by (simp add: ajax_def ajax_executor_def n Let_def)
  next
    case (Inr o2)
    have "data o2 = data ?o1"
      using Inr that [unfolded act]
      by (cases "data opts") (auto simp add: serialize_data_def split: if_splits option.splits)
    with ajax_serialized [of ?d, unfolded n, OF Inr] show ?thesis by simp
  qed
  show ?thesis
    using fresh shorthand json urlenc kept same_data frame
    by (simp add: caller_descriptor_def options_after_v1)
qed

theorem descriptor_mutated_in_place_witness:
  \<open>options_after (ajax (DObject (no_options\<lparr>url := Some ''/save'', data := JObj [(''a'', JNum 1)],
       contentType := Some ''application/json''\<rparr>)))
     = no_options\<lparr>url := Some ''/save'', data := JStr ''{"a":1}'',
         contentType := Some ''application/json'',
         headers := Some [(''Content-Type'', ''application/json'')]\<rparr>
   \<and> options_after (ajax (DObject (no_options\<lparr>url := Some ''/save'', data := JObj [(''a'', JNum 1)]\<rparr>)))
     = no_options\<lparr>url := Some ''/save'', data := JStr ''a=1'', headers := Some []\<rparr>
   \<and> headers (options_after (ajax (DObject (no_options\<lparr>url := Some ''/save'',
         headers := Some [(''Accept'', ''text/plain''), (''Content-Type'', ''text/xml'')],
         contentType := Some ''application/json''\<rparr>))))
     = Some [(''Accept'', ''text/plain''), (''Content-Type'', ''application/json'')]\<close>
proof -
  let ?o1 = "no_options\<lparr>url := Some ''/save'', data := JObj [(''a'', JNum 1)],
       contentType := Some ''application/json''\<rparr>"
  let ?o2 = "no_options\<lparr>url := Some ''/save'', data := JObj [(''a'', JNum 1)]\<rparr>"
  let ?o3 = "no_options\<lparr>url := Some ''/save'',
         headers := Some [(''Accept'', ''text/plain''), (''Content-Type'', ''text/xml'')],
         contentType := Some ''application/json''\<rparr>"
  note t1 = descriptor_mutated_in_place [where opts = ?o1 and c = "''application/json''"]
  note t2 = descriptor_mutated_in_place [where opts = ?o2]
  note t3 = descriptor_mutated_in_place [where opts = ?o3 and c = "''application/json''"]
  have j: \<open>JSON_stringify (JObj [(''a'', JNum 1)]) = Some ''{"a":1}''\<close>
    by (simp add: codec_eval)
  have u: "urlencode [(''a'', JNum 1)] = ''a=1''"
    by (simp add: codec_eval)
  have h1: "headers (options_after (ajax (DObject ?o1))) = Some [(''Content-Type'', ''application/json'')]"
    and d1: \<open>data (options_after (ajax (DObject ?o1))) = JStr ''{"a":1}''\<close>
    using t1 j by (simp_all add: no_options_def headers_of_def)
  have h2: "headers (options_after (ajax (DObject ?o2))) = Some []"
    using t2 by (simp add: no_options_def or_null_def)
  then have "active_content_type (options_after (ajax (DObject ?o2))) \<noteq> Some ''application/json''"
    by (simp add: active_content_type_def headers_of_def)
  then have d2: "data (options_after (ajax (DObject ?o2))) = JStr ''a=1''"
    using t2 u by (simp add: no_options_def)
  have h3: "headers (options_after (ajax (DObject ?o3)))
      = Some [(''Accept'', ''text/plain''), (''Content-Type'', ''application/json'')]"
    using t3 by (simp add: no_options_def headers_of_def)
  have full1: \<open>options_after (ajax (DObject ?o1)) = no_options\<lparr>url := Some ''/save'', data := JStr ''{"a":1}'',
         contentType := Some ''application/json'',
         headers := Some [(''Content-Type'', ''application/json'')]\<rparr>\<close>
    using d1 h1 by (simp add: ajax_eval codec_eval)
  have full2: "options_after (ajax (DObject ?o2))
      = no_options\<lparr>url := Some ''/save'', data := JStr ''a=1'', headers := Some []\<rparr>"
    using d2 h2 by (simp add: ajax_eval codec_eval)
  show ?thesis
    using full1 full2 h3 by simp
qed

end
